theory Spec2Isabelle
  imports Complex_Main "HOL-Library.Product_Lexorder" "HOL-Library.Multiset"
begin

section \<open>Python values\<close>

text \<open>
  The handlers of \<^verbatim>\<open>main.py\<close> receive whatever the client sent, decoded from JSON.
  A Python \<^verbatim>\<open>str\<close> is a sequence of Unicode code points; it is modelled as the list of
  its code points, so that \<^verbatim>\<open>len\<close> counts what Python counts.
\<close>

type_synonym pystr = "nat list"

definition ustr :: "string \<Rightarrow> pystr" where
  "ustr s = map of_char s"

text \<open>A Python \<^verbatim>\<open>float\<close>: a finite value, an infinity (with its sign) or not-a-number.\<close>

datatype pyfloat = Finite rat | Infinity bool | NaN

text \<open>
  A decoded JSON value. A dict is the list of its items in insertion order; the keys of
  a Python dict are distinct, and a lookup takes the first item with the key.
\<close>

datatype json =
    JNull
  | JBool bool
  | JInt int
  | JFloat pyfloat
  | JStr pystr
  | JList "json list"
  | JDict "(pystr \<times> json) list"

text \<open>The exceptions the handlers can meet; all of them derive from \<^verbatim>\<open>Exception\<close>.\<close>

datatype exn = AttributeError | TypeError | ValueError | OverflowError | StoreError

text \<open>Truth value of an object, as \<^verbatim>\<open>not x\<close> and \<^verbatim>\<open>if x\<close> test it.\<close>

fun truthy :: "json \<Rightarrow> bool" where
  "truthy JNull = False"
| "truthy (JBool b) = b"
| "truthy (JInt n) = (n \<noteq> 0)"
| "truthy (JFloat f) = (f \<noteq> Finite 0)"
| "truthy (JStr s) = (s \<noteq> [])"
| "truthy (JList xs) = (xs \<noteq> [])"
| "truthy (JDict kvs) = (kvs \<noteq> [])"

text \<open>\<^verbatim>\<open>len(x)\<close>: defined on strings, lists and dicts, a \<^verbatim>\<open>TypeError\<close> elsewhere.\<close>

fun py_len :: "json \<Rightarrow> exn + nat" where
  "py_len (JStr s) = Inr (length s)"
| "py_len (JList xs) = Inr (length xs)"
| "py_len (JDict kvs) = Inr (length kvs)"
| "py_len _ = Inl TypeError"

text \<open>
  Iteration: a string yields its characters as one-character strings, a list its
  elements, a dict its keys.
\<close>

fun py_iter :: "json \<Rightarrow> exn + json list" where
  "py_iter (JStr s) = Inr (map (\<lambda>c. JStr [c]) s)"
| "py_iter (JList xs) = Inr xs"
| "py_iter (JDict kvs) = Inr (map (\<lambda>kv. JStr (fst kv)) kvs)"
| "py_iter _ = Inl TypeError"

text \<open>
  \<^verbatim>\<open>data.get(key)\<close>: only a dict has the method; a missing key gives \<^verbatim>\<open>None\<close>.
  \<^verbatim>\<open>data.get(key, default)\<close> gives the default instead.
\<close>

fun py_get_default :: "json \<Rightarrow> pystr \<Rightarrow> json \<Rightarrow> exn + json" where
  "py_get_default (JDict kvs) k d = Inr (case map_of kvs k of None \<Rightarrow> d | Some v \<Rightarrow> v)"
| "py_get_default _ k d = Inl AttributeError"

definition py_get :: "json \<Rightarrow> pystr \<Rightarrow> exn + json" where
  "py_get data k = py_get_default data k JNull"

section \<open>The address validator\<close>

text \<open>
  \<^verbatim>\<open>valid_chars = set('123456789ABCDEFGHJKLMNPQRSTUVWXYZabcdefghijkmnopqrstuvwxyz')\<close>:
  a set of one-character strings, held here as the list of their code points.
\<close>

definition valid_chars :: "nat list" where
  "valid_chars = ustr ''123456789ABCDEFGHJKLMNPQRSTUVWXYZabcdefghijkmnopqrstuvwxyz''"

text \<open>
  \<^verbatim>\<open>c in valid_chars\<close>: membership in a set hashes \<^verbatim>\<open>c\<close>, so a list or a dict raises
  \<^verbatim>\<open>TypeError\<close> (unhashable); a string is a member when it is one of the characters;
  nothing else equals a string.
\<close>

fun in_valid_chars :: "json \<Rightarrow> exn + bool" where
  "in_valid_chars (JStr s) = Inr (case s of [c] \<Rightarrow> c \<in> set valid_chars | _ \<Rightarrow> False)"
| "in_valid_chars (JList xs) = Inl TypeError"
| "in_valid_chars (JDict kvs) = Inl TypeError"
| "in_valid_chars _ = Inr False"

text \<open>
  \<^verbatim>\<open>all(c in valid_chars for c in wallet)\<close>: the generator is consumed from the left
  and \<^verbatim>\<open>all\<close> stops at the first false element.
\<close>

fun all_in_valid_chars :: "json list \<Rightarrow> exn + bool" where
  "all_in_valid_chars [] = Inr True"
| "all_in_valid_chars (c # cs) =
     (case in_valid_chars c of
        Inl e \<Rightarrow> Inl e
      | Inr False \<Rightarrow> Inr False
      | Inr True \<Rightarrow> all_in_valid_chars cs)"

text \<open>
  \<^verbatim>\<open>validate_wallet\<close>. The annotation \<^verbatim>\<open>wallet: str\<close> is not enforced by Python, so the
  argument is any value.
\<close>

definition validate_wallet :: "json \<Rightarrow> exn + bool" where
  "validate_wallet wallet =
     (if \<not> truthy wallet then Inr False
      else case py_len wallet of
        Inl e \<Rightarrow> Inl e
      | Inr n \<Rightarrow>
          if n < 32 \<or> n > 44 then Inr False
          else (case py_iter wallet of
                  Inl e \<Rightarrow> Inl e
                | Inr cs \<Rightarrow> all_in_valid_chars cs))"

text \<open>
  The alphabet in the words of the specification: the ASCII letters and digits without
  \<^verbatim>\<open>0\<close>, \<^verbatim>\<open>O\<close>, \<^verbatim>\<open>I\<close> and \<^verbatim>\<open>l\<close>.
\<close>

definition spec_alphabet :: "nat set" where
  "spec_alphabet =
     ({48..57} \<union> {65..90} \<union> {97..122}) - {48, 79, 73, 108}"

section \<open>Strings and numbers of the message handlers\<close>

text \<open>
  The code points \<^verbatim>\<open>str.strip()\<close> removes: the whitespace of \<^verbatim>\<open>str.isspace\<close>
  (tab to carriage return, the separators U+001C to U+001F, space, U+0085, U+00A0,
  U+1680, U+2000 to U+200A, U+2028, U+2029, U+202F, U+205F, U+3000).
\<close>

definition is_space :: "nat \<Rightarrow> bool" where
  "is_space c =
     ((9 \<le> c \<and> c \<le> 13) \<or> (28 \<le> c \<and> c \<le> 32) \<or> c = 133 \<or> c = 160 \<or> c = 5760
      \<or> (8192 \<le> c \<and> c \<le> 8202) \<or> c = 8232 \<or> c = 8233 \<or> c = 8239 \<or> c = 8287
      \<or> c = 12288)"

definition strip :: "pystr \<Rightarrow> pystr" where
  "strip s = rev (dropWhile is_space (rev (dropWhile is_space s)))"

text \<open>
  \<^verbatim>\<open>int(x)\<close>. Parsing a string is the work of the Python runtime (signs, underscores,
  the decimal digits of every script, the limit on the number of digits); it is taken
  as a parameter, \<^verbatim>\<open>None\<close> standing for the \<^verbatim>\<open>ValueError\<close> of a string that is no
  integer literal. A float is truncated towards zero.
\<close>

fun py_int :: "(pystr \<Rightarrow> int option) \<Rightarrow> json \<Rightarrow> exn + int" where
  "py_int parse JNull = Inl TypeError"
| "py_int parse (JBool b) = Inr (if b then 1 else 0)"
| "py_int parse (JInt n) = Inr n"
| "py_int parse (JFloat (Finite r)) = Inr (if 0 \<le> r then \<lfloor>r\<rfloor> else \<lceil>r\<rceil>)"
| "py_int parse (JFloat (Infinity sg)) = Inl OverflowError"
| "py_int parse (JFloat NaN) = Inl ValueError"
| "py_int parse (JStr s) = (case parse s of None \<Rightarrow> Inl ValueError | Some n \<Rightarrow> Inr n)"
| "py_int parse (JList xs) = Inl TypeError"
| "py_int parse (JDict kvs) = Inl TypeError"

text \<open>\<^verbatim>\<open>isinstance(data, dict)\<close>.\<close>

fun is_dict :: "json \<Rightarrow> bool" where
  "is_dict (JDict kvs) = True"
| "is_dict _ = False"

section \<open>Timestamps\<close>

text \<open>
  A naive \<^verbatim>\<open>datetime\<close>: what \<^verbatim>\<open>datetime.utcnow()\<close> returns and what the driver returns
  for a \<^verbatim>\<open>timestamp\<close> column. Python keeps the fields in range (year 1 to 9999, month 1
  to 12, and so on, microsecond below 1000000).
\<close>

record datetime =
  year :: nat
  month :: nat
  day :: nat
  hour :: nat
  minute :: nat
  second :: nat
  microsecond :: nat

definition digit :: "nat \<Rightarrow> nat" where
  "digit n = 48 + n mod 10"

definition d2 :: "nat \<Rightarrow> pystr" where
  "d2 n = [digit (n div 10), digit n]"

definition d4 :: "nat \<Rightarrow> pystr" where
  "d4 n = [digit (n div 1000), digit (n div 100), digit (n div 10), digit n]"

definition d6 :: "nat \<Rightarrow> pystr" where
  "d6 n = [digit (n div 100000), digit (n div 10000), digit (n div 1000),
           digit (n div 100), digit (n div 10), digit n]"

text \<open>
  \<^verbatim>\<open>isoformat()\<close> of a naive datetime: \<^verbatim>\<open>YYYY-MM-DDTHH:MM:SS\<close>, followed by
  \<^verbatim>\<open>.ffffff\<close> when the microsecond is not zero. On fields in range the zero-padded
  formats \<^verbatim>\<open>%04d\<close>, \<^verbatim>\<open>%02d\<close> and \<^verbatim>\<open>%06d\<close> print exactly four, two and six digits.
\<close>

definition isoformat :: "datetime \<Rightarrow> pystr" where
  "isoformat t =
     d4 (year t) @ ustr ''-'' @ d2 (month t) @ ustr ''-'' @ d2 (day t) @ ustr ''T''
     @ d2 (hour t) @ ustr '':'' @ d2 (minute t) @ ustr '':'' @ d2 (second t)
     @ (if microsecond t = 0 then [] else ustr ''.'' @ d6 (microsecond t))"

text \<open>The order of timestamps, as \<^verbatim>\<open>ORDER BY created_at\<close> compares them.\<close>

definition ts_key :: "datetime \<Rightarrow> nat \<times> nat \<times> nat \<times> nat \<times> nat \<times> nat \<times> nat" where
  "ts_key t = (year t, month t, day t, hour t, minute t, second t, microsecond t)"

section \<open>The store\<close>

text \<open>
  Modelled from the spec: the schema is not part of \<^verbatim>\<open>main.py\<close>. The specification
  gives \<^verbatim>\<open>users(wallet PRIMARY KEY)\<close> and
  \<^verbatim>\<open>messages(id SERIAL PRIMARY KEY, sender_wallet, content, created_at)\<close>, with
  \<^verbatim>\<open>created_at\<close> a timestamp the store assigns at insert time. The statements that
  run against it are those of the source.
\<close>

record message_row =
  row_id :: int
  row_sender :: pystr
  row_content :: pystr
  row_created_at :: datetime

text \<open>
  \<^verbatim>\<open>users\<close> is the set of wallets, \<^verbatim>\<open>messages\<close> the rows in insertion order and
  \<^verbatim>\<open>next_id\<close> the next value of the sequence behind \<^verbatim>\<open>id SERIAL\<close>.
\<close>

record store =
  users :: "pystr set"
  messages :: "message_row list"
  next_id :: int

definition empty_store :: store where
  "empty_store = \<lparr>users = {}, messages = [], next_id = 1\<rparr>"

text \<open>
  The calls of a handler on the driver that can raise, in the order of the source;
  the number is the position of the \<^verbatim>\<open>execute\<close> or \<^verbatim>\<open>commit\<close> within the handler.
\<close>

datatype db_call = DbConnect | DbCursor | DbExecute nat | DbCommit nat | DbFetchOne | DbFetchAll

text \<open>
  What a handler reads from its surroundings during one call: which driver calls raise
  (for whatever reason: connectivity, a constraint, an encoding the store refuses, an
  exhausted sequence), the store's clock when it fills \<^verbatim>\<open>created_at\<close>, the clock of the
  server process read by \<^verbatim>\<open>datetime.utcnow()\<close>, the runtime's parser behind
  \<^verbatim>\<open>int()\<close>, and what the driver and the store make of a query parameter that no
  handler binds (\<^verbatim>\<open>None\<close> when the call raises). Closing a cursor or a connection
  does not raise.
\<close>

record env =
  fails :: "db_call \<Rightarrow> bool"
  db_now :: datetime
  utcnow :: datetime
  int_of_str :: "pystr \<Rightarrow> int option"
  other_param :: "json \<Rightarrow> pystr option"

text \<open>
  The text of an array of strings that need no quotes, as the store prints it:
  \<^verbatim>\<open>{a,b,c}\<close>.
\<close>

fun join_comma :: "pystr list \<Rightarrow> pystr" where
  "join_comma [] = []"
| "join_comma [e] = e"
| "join_comma (e # es) = e @ ustr '','' @ join_comma es"

definition array_text :: "pystr list \<Rightarrow> pystr" where
  "array_text es = ustr ''{'' @ join_comma es @ ustr ''}''"

fun str_of :: "json \<Rightarrow> pystr" where
  "str_of (JStr s) = s"
| "str_of _ = []"

definition bound_text :: "env \<Rightarrow> json \<Rightarrow> exn + pystr" where
  "bound_text ev v = (case other_param ev v of None \<Rightarrow> Inl StoreError | Some t \<Rightarrow> Inr t)"

text \<open>
  A query parameter bound to a text column. The handlers bind a content that has
  \<^verbatim>\<open>strip\<close>, a string, and a wallet that \<^verbatim>\<open>validate_wallet\<close> accepted: a string, a
  list of one-character strings of the alphabet, or a dict with such keys. A string is
  passed on as it is. The driver turns a list into an array, and the store casts the
  array to its text on assignment to the column. The driver cannot adapt a dict. Any
  other value is left to the environment.
\<close>

fun sql_text_param :: "env \<Rightarrow> json \<Rightarrow> exn + pystr" where
  "sql_text_param ev (JStr s) = Inr s"
| "sql_text_param ev (JList xs) =
     (if list_all (\<lambda>v. in_valid_chars v = Inr True) xs
      then Inr (array_text (map str_of xs))
      else bound_text ev (JList xs))"
| "sql_text_param ev (JDict kvs) = Inl StoreError"
| "sql_text_param ev v = bound_text ev v"

text \<open>\<^verbatim>\<open>INSERT INTO users (wallet) VALUES (%s) ON CONFLICT (wallet) DO NOTHING\<close>.\<close>

definition insert_user :: "pystr \<Rightarrow> store \<Rightarrow> store" where
  "insert_user w s = s\<lparr>users := insert w (users s)\<rparr>"

text \<open>
  \<^verbatim>\<open>INSERT INTO messages (sender_wallet, content) VALUES (%s, %s) RETURNING id\<close>: the id
  comes from the sequence and \<^verbatim>\<open>created_at\<close> from the store's clock.
\<close>

definition insert_message :: "pystr \<Rightarrow> pystr \<Rightarrow> datetime \<Rightarrow> store \<Rightarrow> int \<times> store" where
  "insert_message w c t s =
     (next_id s,
      s\<lparr>messages := messages s @
           [\<lparr>row_id = next_id s, row_sender = w, row_content = c, row_created_at = t\<rparr>],
        next_id := next_id s + 1\<rparr>)"

text \<open>
  Closing a connection with uncommitted work rolls it back to the last commit; a value
  drawn from a sequence is not given back.
\<close>

definition rollback :: "store \<Rightarrow> store \<Rightarrow> store" where
  "rollback committed working = committed\<lparr>next_id := next_id working\<rparr>"

text \<open>
  \<^verbatim>\<open>SELECT ... FROM messages m ORDER BY m.created_at DESC LIMIT %s\<close>. A negative limit
  is an error of the store. Among rows of equal \<^verbatim>\<open>created_at\<close>, whose order the store
  leaves open, the later insert comes first here.
\<close>

definition select_recent :: "int \<Rightarrow> store \<Rightarrow> exn + message_row list" where
  "select_recent limit s =
     (if limit < 0 then Inl StoreError
      else Inr (take (nat limit)
                  (rev (sort_key (\<lambda>r. ts_key (row_created_at r)) (messages s)))))"

section \<open>Emissions\<close>

type_synonym sid = string

text \<open>
  \<^verbatim>\<open>sio.emit(event, data, to=sid)\<close> addresses one session,
  \<^verbatim>\<open>sio.emit(event, data, skip_sid=sid)\<close> every connected session but one. An emit
  is recorded in the order of the source and is taken not to raise.
\<close>

datatype target = To sid | SkipSid sid

datatype emission = Emit string json target

fun recipients :: "sid set \<Rightarrow> target \<Rightarrow> sid set" where
  "recipients conn (To x) = conn \<inter> {x}"
| "recipients conn (SkipSid x) = conn - {x}"

definition error_payload :: "string \<Rightarrow> json" where
  "error_payload m = JDict [(ustr ''message'', JStr (ustr m))]"

definition message_payload :: "json \<Rightarrow> json \<Rightarrow> json \<Rightarrow> json \<Rightarrow> json" where
  "message_payload i w c t =
     JDict [(ustr ''id'', i), (ustr ''sender'', w), (ustr ''content'', c),
            (ustr ''created_at'', t)]"

text \<open>
  \<^verbatim>\<open>except Exception\<close> at the end of every handler: whatever the body raised, the
  caller is sent the generic error; the store keeps what was committed.
\<close>

fun catch_all :: "sid \<Rightarrow> store \<times> (exn + emission list) \<Rightarrow> store \<times> emission list" where
  "catch_all x (s, Inr out) = (s, out)"
| "catch_all x (s, Inl e) =
     (s, [Emit ''error'' (error_payload ''Internal server error'') (To x)])"

text \<open>\<^verbatim>\<open>not wallet or not validate_wallet(wallet)\<close>.\<close>

definition wallet_refused :: "json \<Rightarrow> exn + bool" where
  "wallet_refused wallet =
     (if \<not> truthy wallet then Inr True
      else case validate_wallet wallet of Inl e \<Rightarrow> Inl e | Inr ok \<Rightarrow> Inr (\<not> ok))"

section \<open>The handlers\<close>

subsection \<open>login\<close>

text \<open>
  The \<^verbatim>\<open>with\<close> blocks of \<^verbatim>\<open>login\<close>: connect, open a cursor, insert the user, commit.
  An exception leaves the blocks through \<^verbatim>\<open>finally\<close>, closing cursor and connection.
\<close>

definition login_db :: "env \<Rightarrow> store \<Rightarrow> json \<Rightarrow> store \<times> (exn + unit)" where
  "login_db ev s wallet =
     (if fails ev DbConnect then (s, Inl StoreError)
      else if fails ev DbCursor then (s, Inl StoreError)
      else case sql_text_param ev wallet of
        Inl e \<Rightarrow> (s, Inl e)
      | Inr w \<Rightarrow>
          if fails ev (DbExecute 1) then (s, Inl StoreError)
          else if fails ev (DbCommit 1) then (s, Inl StoreError)
          else (insert_user w s, Inr ()))"

definition login_body :: "env \<Rightarrow> store \<Rightarrow> sid \<Rightarrow> json \<Rightarrow> store \<times> (exn + emission list)" where
  "login_body ev s x data =
     (case py_get data (ustr ''wallet'') of
        Inl e \<Rightarrow> (s, Inl e)
      | Inr wallet \<Rightarrow>
          (case wallet_refused wallet of
             Inl e \<Rightarrow> (s, Inl e)
           | Inr True \<Rightarrow>
               (s, Inr [Emit ''error'' (error_payload ''Invalid wallet address'') (To x)])
           | Inr False \<Rightarrow>
               (case login_db ev s wallet of
                  (s', Inl e) \<Rightarrow> (s', Inl e)
                | (s', Inr u) \<Rightarrow>
                    (s', Inr [Emit ''login_success'' (JDict [(ustr ''wallet'', wallet)])
                                (To x)]))))"

definition login :: "env \<Rightarrow> store \<Rightarrow> sid \<Rightarrow> json \<Rightarrow> store \<times> emission list" where
  "login ev s x data = catch_all x (login_body ev s x data)"

subsection \<open>send\_message\<close>

text \<open>\<^verbatim>\<open>not content or len(content.strip()) == 0\<close>; only a string has \<^verbatim>\<open>strip\<close>.\<close>

definition content_empty :: "json \<Rightarrow> exn + bool" where
  "content_empty content =
     (if \<not> truthy content then Inr True
      else case content of
        JStr c \<Rightarrow> Inr (length (strip c) = 0)
      | _ \<Rightarrow> Inl AttributeError)"

text \<open>
  The \<^verbatim>\<open>with\<close> blocks of \<^verbatim>\<open>send_message\<close>: the user is inserted and committed, then
  the message is inserted, its id fetched, and committed. What was committed before an
  exception stays; the rest is rolled back when the connection closes.
\<close>

definition send_message_db :: "env \<Rightarrow> store \<Rightarrow> json \<Rightarrow> json \<Rightarrow> store \<times> (exn + int)" where
  "send_message_db ev s wallet content =
     (if fails ev DbConnect then (s, Inl StoreError)
      else if fails ev DbCursor then (s, Inl StoreError)
      else case sql_text_param ev wallet of
        Inl e \<Rightarrow> (s, Inl e)
      | Inr w \<Rightarrow>
          if fails ev (DbExecute 1) then (s, Inl StoreError)
          else if fails ev (DbCommit 1) then (s, Inl StoreError)
          else
            let s1 = insert_user w s in
            (case sql_text_param ev content of
               Inl e \<Rightarrow> (s1, Inl e)
             | Inr c \<Rightarrow>
                 if fails ev (DbExecute 2) then (s1, Inl StoreError)
                 else
                   let (message_id, s2) = insert_message w c (db_now ev) s1 in
                   if fails ev DbFetchOne then (rollback s1 s2, Inl StoreError)
                   else if fails ev (DbCommit 2) then (rollback s1 s2, Inl StoreError)
                   else (s2, Inr message_id)))"

definition send_message_body ::
  "env \<Rightarrow> store \<Rightarrow> sid \<Rightarrow> json \<Rightarrow> store \<times> (exn + emission list)" where
  "send_message_body ev s x data =
     (case py_get data (ustr ''wallet'') of
        Inl e \<Rightarrow> (s, Inl e)
      | Inr wallet \<Rightarrow>
     (case py_get data (ustr ''content'') of
        Inl e \<Rightarrow> (s, Inl e)
      | Inr content \<Rightarrow>
     (case wallet_refused wallet of
        Inl e \<Rightarrow> (s, Inl e)
      | Inr True \<Rightarrow>
          (s, Inr [Emit ''error'' (error_payload ''Invalid wallet address'') (To x)])
      | Inr False \<Rightarrow>
     (case content_empty content of
        Inl e \<Rightarrow> (s, Inl e)
      | Inr True \<Rightarrow>
          (s, Inr [Emit ''error'' (error_payload ''Message cannot be empty'') (To x)])
      | Inr False \<Rightarrow>
     (case py_len content of
        Inl e \<Rightarrow> (s, Inl e)
      | Inr n \<Rightarrow>
          if n > 1000
          then (s, Inr [Emit ''error'' (error_payload ''Message too long'') (To x)])
          else
            (case send_message_db ev s wallet content of
               (s', Inl e) \<Rightarrow> (s', Inl e)
             | (s', Inr message_id) \<Rightarrow>
                 let message = message_payload (JInt message_id) wallet content
                                 (JStr (isoformat (utcnow ev)))
                 in (s', Inr [Emit ''new_message'' message (SkipSid x),
                              Emit ''new_message'' message (To x)])))))))"

definition send_message :: "env \<Rightarrow> store \<Rightarrow> sid \<Rightarrow> json \<Rightarrow> store \<times> emission list" where
  "send_message ev s x data = catch_all x (send_message_body ev s x data)"

subsection \<open>fetch\_messages\<close>

text \<open>
  The limit: 50, unless the payload is a non-empty dict, in which case
  \<^verbatim>\<open>min(int(data.get("limit", 50)), 100)\<close>. An event without payload has
  \<^verbatim>\<open>data = None\<close>.
\<close>

definition fetch_limit :: "env \<Rightarrow> json \<Rightarrow> exn + int" where
  "fetch_limit ev data =
     (if truthy data \<and> is_dict data
      then (case py_get_default data (ustr ''limit'') (JInt 50) of
              Inl e \<Rightarrow> Inl e
            | Inr v \<Rightarrow>
                (case py_int (int_of_str ev) v of
                   Inl e \<Rightarrow> Inl e
                 | Inr n \<Rightarrow> Inr (min n 100)))
      else Inr 50)"

definition row_payload :: "message_row \<Rightarrow> json" where
  "row_payload r =
     message_payload (JInt (row_id r)) (JStr (row_sender r)) (JStr (row_content r))
       (JStr (isoformat (row_created_at r)))"

definition fetch_messages_body ::
  "env \<Rightarrow> store \<Rightarrow> sid \<Rightarrow> json \<Rightarrow> store \<times> (exn + emission list)" where
  "fetch_messages_body ev s x data =
     (case fetch_limit ev data of
        Inl e \<Rightarrow> (s, Inl e)
      | Inr limit \<Rightarrow>
          if fails ev DbConnect then (s, Inl StoreError)
          else if fails ev DbCursor then (s, Inl StoreError)
          else if fails ev (DbExecute 1) then (s, Inl StoreError)
          else (case select_recent limit s of
                  Inl e \<Rightarrow> (s, Inl e)
                | Inr rows \<Rightarrow>
                    if fails ev DbFetchAll then (s, Inl StoreError)
                    else (s, Inr [Emit ''messages'' (JList (map row_payload rows)) (To x)])))"

definition fetch_messages :: "env \<Rightarrow> store \<Rightarrow> sid \<Rightarrow> json \<Rightarrow> store \<times> emission list" where
  "fetch_messages ev s x data = catch_all x (fetch_messages_body ev s x data)"

subsection \<open>The call of a handler\<close>

text \<open>
  The library calls a handler with the session id followed by the arguments of the
  event, \<^verbatim>\<open>handler(sid, *args)\<close>. \<^verbatim>\<open>login(sid, data)\<close> and \<^verbatim>\<open>send_message(sid, data)\<close>
  take exactly one argument after the session id;
  \<^verbatim>\<open>fetch_messages(sid, data: Optional[dict] = None)\<close> takes one or none. A call with
  another number of arguments raises \<^verbatim>\<open>TypeError\<close> before the body is entered, so
  outside its \<^verbatim>\<open>try\<close>: the exception leaves the handler (\<^verbatim>\<open>Inl\<close>) and nothing is
  emitted.
\<close>

definition login_call ::
  "env \<Rightarrow> store \<Rightarrow> sid \<Rightarrow> json list \<Rightarrow> store \<times> (exn + emission list)" where
  "login_call ev s x args =
     (case args of
        [data] \<Rightarrow> (case login ev s x data of (s', out) \<Rightarrow> (s', Inr out))
      | _ \<Rightarrow> (s, Inl TypeError))"

definition send_message_call ::
  "env \<Rightarrow> store \<Rightarrow> sid \<Rightarrow> json list \<Rightarrow> store \<times> (exn + emission list)" where
  "send_message_call ev s x args =
     (case args of
        [data] \<Rightarrow> (case send_message ev s x data of (s', out) \<Rightarrow> (s', Inr out))
      | _ \<Rightarrow> (s, Inl TypeError))"

definition fetch_messages_call ::
  "env \<Rightarrow> store \<Rightarrow> sid \<Rightarrow> json list \<Rightarrow> store \<times> (exn + emission list)" where
  "fetch_messages_call ev s x args =
     (case args of
        [] \<Rightarrow> (case fetch_messages ev s x JNull of (s', out) \<Rightarrow> (s', Inr out))
      | [data] \<Rightarrow> (case fetch_messages ev s x data of (s', out) \<Rightarrow> (s', Inr out))
      | _ \<Rightarrow> (s, Inl TypeError))"

subsection \<open>The server\<close>

text \<open>
  The server's state is the store and the registry of connected sessions, which
  \<^verbatim>\<open>connect\<close> (accepting every connection) and \<^verbatim>\<open>disconnect\<close> maintain. No handler
  reads or writes anything about a session: there is no record of which session logged
  in. The events are those that carry a payload; a call that raises before the body
  changes nothing and emits nothing.
\<close>

record server =
  db :: store
  connected :: "sid set"

datatype event =
    EvConnect sid
  | EvDisconnect sid
  | EvLogin sid json
  | EvSendMessage sid json
  | EvFetchMessages sid json

fun step :: "server \<Rightarrow> env \<times> event \<Rightarrow> server \<times> emission list" where
  "step sv (ev, EvConnect x) = (sv\<lparr>connected := insert x (connected sv)\<rparr>, [])"
| "step sv (ev, EvDisconnect x) = (sv\<lparr>connected := connected sv - {x}\<rparr>, [])"
| "step sv (ev, EvLogin x data) =
     (case login ev (db sv) x data of (s', out) \<Rightarrow> (sv\<lparr>db := s'\<rparr>, out))"
| "step sv (ev, EvSendMessage x data) =
     (case send_message ev (db sv) x data of (s', out) \<Rightarrow> (sv\<lparr>db := s'\<rparr>, out))"
| "step sv (ev, EvFetchMessages x data) =
     (case fetch_messages ev (db sv) x data of (s', out) \<Rightarrow> (sv\<lparr>db := s'\<rparr>, out))"

text \<open>Events are handled one after the other; the emissions are collected in order.\<close>

fun run :: "server \<Rightarrow> (env \<times> event) list \<Rightarrow> server \<times> emission list" where
  "run sv [] = (sv, [])"
| "run sv (e # es) =
     (case step sv e of (sv1, out1) \<Rightarrow>
        (case run sv1 es of (sv2, out2) \<Rightarrow> (sv2, out1 @ out2)))"

definition initial_server :: server where
  "initial_server = \<lparr>db = empty_store, connected = {}\<rparr>"

section \<open>Vocabulary of the properties\<close>

text \<open>None of the listed driver calls raises.\<close>

definition no_failure :: "env \<Rightarrow> db_call list \<Rightarrow> bool" where
  "no_failure ev cs = list_all (\<lambda>c. \<not> fails ev c) cs"

text \<open>The driver calls of each handler, in the order of the source.\<close>

definition login_calls :: "db_call list" where
  "login_calls = [DbConnect, DbCursor, DbExecute 1, DbCommit 1]"

definition send_message_calls :: "db_call list" where
  "send_message_calls =
     [DbConnect, DbCursor, DbExecute 1, DbCommit 1, DbExecute 2, DbFetchOne, DbCommit 2]"

definition fetch_messages_calls :: "db_call list" where
  "fetch_messages_calls = [DbConnect, DbCursor, DbExecute 1, DbFetchAll]"

text \<open>A string that is empty or made of whitespace only.\<close>

definition whitespace_only :: "pystr \<Rightarrow> bool" where
  "whitespace_only c = list_all is_space c"

text \<open>Every id in the table was drawn from the sequence before its present value.\<close>

definition ids_below_next :: "store \<Rightarrow> bool" where
  "ids_below_next s = list_all (\<lambda>r. row_id r < next_id s) (messages s)"

text \<open>The event is a \<^verbatim>\<open>login\<close> of the session.\<close>

fun is_login_of :: "sid \<Rightarrow> event \<Rightarrow> bool" where
  "is_login_of x (EvLogin y data) = (x = y)"
| "is_login_of x _ = False"

text \<open>An \<^verbatim>\<open>error\<close> event.\<close>

fun is_error :: "emission \<Rightarrow> bool" where
  "is_error (Emit name p t) = (name = ''error'')"

text \<open>The \<^verbatim>\<open>id\<close> field of a payload, and the ids that \<^verbatim>\<open>new_message\<close> events carry.\<close>

definition payload_id :: "json \<Rightarrow> int option" where
  "payload_id p = (case py_get p (ustr ''id'') of Inr (JInt i) \<Rightarrow> Some i | _ \<Rightarrow> None)"

fun new_message_ids :: "emission list \<Rightarrow> int list" where
  "new_message_ids [] = []"
| "new_message_ids (Emit name p t # es) =
     (if name = ''new_message''
      then (case payload_id p of Some i \<Rightarrow> [i] | None \<Rightarrow> [])
      else [])
     @ new_message_ids es"

text \<open>
  Between two states of the store the sequence has not gone back, and the ids of the
  \<^verbatim>\<open>new_message\<close> events emitted meanwhile were drawn from it in that interval.
\<close>

definition ids_between :: "store \<Rightarrow> store \<Rightarrow> emission list \<Rightarrow> bool" where
  "ids_between s s' out =
     (next_id s \<le> next_id s'
      \<and> list_all (\<lambda>i. next_id s \<le> i \<and> i < next_id s') (new_message_ids out))"

text \<open>Rows in the order of \<^verbatim>\<open>created_at\<close>, the newest first.\<close>

definition newest_first :: "message_row list \<Rightarrow> bool" where
  "newest_first rows =
     sorted_wrt (\<lambda>a b. ts_key (row_created_at b) \<le> ts_key (row_created_at a)) rows"

text \<open>
  The rows are the first \<^verbatim>\<open>limit\<close> of the table's rows put in that order, whatever the
  order among rows of equal \<^verbatim>\<open>created_at\<close>.
\<close>

definition recent_rows :: "int \<Rightarrow> store \<Rightarrow> message_row list \<Rightarrow> bool" where
  "recent_rows limit s rows =
     (\<exists>ordered. mset ordered = mset (messages s) \<and> newest_first ordered
        \<and> rows = take (nat limit) ordered)"

text \<open>
  From one state of the store to a later one the table has only gained rows, at its
  end, with ids the sequence had not yet reached.
\<close>

definition appended :: "store \<Rightarrow> store \<Rightarrow> bool" where
  "appended s s' =
     (\<exists>extra. messages s' = messages s @ extra
        \<and> list_all (\<lambda>r. next_id s \<le> row_id r) extra)"

subsection \<open>Sample values\<close>

text \<open>The address of the specification's example, a payload, two clock readings.\<close>

definition sample_wallet :: pystr where
  "sample_wallet = replicate 32 49"

definition send_payload :: "pystr \<Rightarrow> pystr \<Rightarrow> json" where
  "send_payload w c = JDict [(ustr ''wallet'', JStr w), (ustr ''content'', JStr c)]"

definition sample_time :: datetime where
  "sample_time = \<lparr>year = 2024, month = 5, day = 17, hour = 9, minute = 30, second = 0,
                   microsecond = 0\<rparr>"

definition sample_env :: env where
  "sample_env = \<lparr>fails = (\<lambda>c. False), db_now = sample_time,
                  utcnow = sample_time\<lparr>microsecond := 412\<rparr>, int_of_str = (\<lambda>s. None),
                  other_param = (\<lambda>v. None)\<rparr>"

text \<open>A store with two messages, the second five seconds after the first.\<close>

definition sample_rows :: "message_row list" where
  "sample_rows =
     [\<lparr>row_id = 1, row_sender = sample_wallet, row_content = ustr ''hi'',
        row_created_at = sample_time\<rparr>,
      \<lparr>row_id = 2, row_sender = sample_wallet, row_content = ustr ''hello'',
        row_created_at = sample_time\<lparr>second := 5\<rparr>\<rparr>]"

definition sample_store :: store where
  "sample_store = \<lparr>users = {sample_wallet}, messages = sample_rows, next_id = 3\<rparr>"

text \<open>The store after one message, its broadcast payload and its fetched record.\<close>

definition sent_store :: store where
  "sent_store =
     \<lparr>users = {sample_wallet},
      messages = [\<lparr>row_id = 1, row_sender = sample_wallet, row_content = ustr ''hello'',
                   row_created_at = sample_time\<rparr>],
      next_id = 2\<rparr>"

definition sent_payload :: json where
  "sent_payload =
     message_payload (JInt 1) (JStr sample_wallet) (JStr (ustr ''hello''))
       (JStr (ustr ''2024-05-17T09:30:00.000412''))"

definition fetched_record :: json where
  "fetched_record =
     message_payload (JInt 1) (JStr sample_wallet) (JStr (ustr ''hello''))
       (JStr (ustr ''2024-05-17T09:30:00''))"

text \<open>A wallet that is no string and that \<^verbatim>\<open>validate_wallet\<close> accepts: a list of 32 ones.\<close>

definition list_wallet :: json where
  "list_wallet = JList (replicate 32 (JStr (ustr ''1'')))"

section \<open>The address validator on strings\<close>

lemma valid_chars_code_points:
  "valid_chars =
     [49, 50, 51, 52, 53, 54, 55, 56, 57,
      65, 66, 67, 68, 69, 70, 71, 72, 74, 75, 76, 77, 78,
      80, 81, 82, 83, 84, 85, 86, 87, 88, 89, 90,
      97, 98, 99, 100, 101, 102, 103, 104, 105, 106, 107,
      109, 110, 111, 112, 113, 114, 115, 116, 117, 118, 119, 120, 121, 122]"
  by (simp add: valid_chars_def ustr_def)

lemma valid_chars_spec_alphabet: "set valid_chars = spec_alphabet"
proof -
  have "c \<in> set valid_chars \<longleftrightarrow> c \<in> spec_alphabet" for c
    unfolding valid_chars_code_points spec_alphabet_def
    by (simp only: set_simps insert_iff empty_iff Un_iff Diff_iff atLeastAtMost_iff) presburger
  then show ?thesis by blast
qed

lemma valid_chars_58: "distinct valid_chars \<and> length valid_chars = 58"
  by (simp add: valid_chars_code_points)

lemma all_in_valid_chars_str:
  "all_in_valid_chars (map (\<lambda>c. JStr [c]) s) = Inr (set s \<subseteq> set valid_chars)"
  by (induction s) (auto split: bool.splits)

lemma validate_wallet_JStr:
  "validate_wallet (JStr w) =
     Inr (32 \<le> length w \<and> length w \<le> 44 \<and> set w \<subseteq> spec_alphabet)"
  by (auto simp: validate_wallet_def all_in_valid_chars_str valid_chars_spec_alphabet)

text \<open>
  C6. On a string, \<^verbatim>\<open>validate_wallet\<close> returns true exactly when the length is between
  32 and 44 and every character belongs to the alphabet of the specification (the
  letters and digits without 0, O, I and l), which has 58 characters. So it returns
  false for the empty string, for a length outside the range and for a string with a
  character outside the alphabet, and true for every other string.
\<close>

theorem validate_wallet_str:
  "validate_wallet (JStr w) =
     Inr (32 \<le> length w \<and> length w \<le> 44 \<and> set w \<subseteq> spec_alphabet)
   \<and> card spec_alphabet = 58"
proof -
  have "card (set valid_chars) = 58"
    using valid_chars_58 by (simp add: distinct_card)
  then have "card spec_alphabet = 58"
    by (simp add: valid_chars_spec_alphabet)
  then show ?thesis
    by (simp add: validate_wallet_JStr)
qed

theorem validate_wallet_str_witness:
  "validate_wallet (JStr (replicate 32 49)) = Inr True
   \<and> validate_wallet (JStr (replicate 44 122)) = Inr True
   \<and> validate_wallet (JStr (replicate 31 49)) = Inr False
   \<and> validate_wallet (JStr (replicate 45 49)) = Inr False
   \<and> validate_wallet (JStr (replicate 32 48)) = Inr False
   \<and> validate_wallet (JStr []) = Inr False"
  using validate_wallet_str [of "replicate 32 49"] validate_wallet_str [of "replicate 44 122"]
    validate_wallet_str [of "replicate 31 49"] validate_wallet_str [of "replicate 45 49"]
    validate_wallet_str [of "replicate 32 48"] validate_wallet_str [of "[]"]
  by (simp add: spec_alphabet_def)

section \<open>Validation in send\_message\<close>

lemma strip_empty_iff: "length (strip c) = 0 \<longleftrightarrow> whitespace_only c"
proof
  assume "length (strip c) = 0"
  then have a: "\<forall>x\<in>set (dropWhile is_space c). is_space x"
    by (simp add: strip_def)
  have "dropWhile is_space c = []"
  proof (rule ccontr)
    assume n: "dropWhile is_space c \<noteq> []"
    then have "\<not> is_space (hd (dropWhile is_space c))"
      by (rule hd_dropWhile)
    with a n show False
      by simp
  qed
  then show "whitespace_only c"
    by (simp add: whitespace_only_def list_all_iff)
next
  assume "whitespace_only c"
  then show "length (strip c) = 0"
    by (auto simp: strip_def whitespace_only_def list_all_iff dest: set_dropWhileD)
qed

lemma content_empty_JStr: "content_empty (JStr c) = Inr (whitespace_only c)"
  using strip_empty_iff [of c]
  by (cases c) (simp_all add: content_empty_def whitespace_only_def)

lemma wallet_refused_valid:
  "validate_wallet wallet = Inr True \<Longrightarrow> wallet_refused wallet = Inr False"
  by (auto simp: wallet_refused_def validate_wallet_def split: if_splits)

lemma send_message_db_ok:
  assumes "no_failure ev send_message_calls"
  shows "send_message_db ev s (JStr w) (JStr c) =
           (snd (insert_message w c (db_now ev) (insert_user w s)), Inr (next_id s))"
  using assms
  by (simp add: send_message_db_def no_failure_def send_message_calls_def
        insert_message_def insert_user_def)

lemma send_message_success:
  assumes "py_get data (ustr ''wallet'') = Inr (JStr w)"
    and "validate_wallet (JStr w) = Inr True"
    and "py_get data (ustr ''content'') = Inr (JStr c)"
    and "\<not> whitespace_only c" and "length c \<le> 1000"
    and "no_failure ev send_message_calls"
  shows "send_message ev s x data =
     (snd (insert_message w c (db_now ev) (insert_user w s)),
      [Emit ''new_message''
         (message_payload (JInt (next_id s)) (JStr w) (JStr c) (JStr (isoformat (utcnow ev))))
         (SkipSid x),
       Emit ''new_message''
         (message_payload (JInt (next_id s)) (JStr w) (JStr c) (JStr (isoformat (utcnow ev))))
         (To x)])"
  using assms
  by (simp add: send_message_def send_message_body_def wallet_refused_valid
        content_empty_JStr send_message_db_ok Let_def)

lemma send_message_empty:
  assumes "py_get data (ustr ''wallet'') = Inr wallet"
    and "validate_wallet wallet = Inr True"
    and "py_get data (ustr ''content'') = Inr (JStr c)"
    and "whitespace_only c"
  shows "send_message ev s x data =
     (s, [Emit ''error'' (error_payload ''Message cannot be empty'') (To x)])"
  using assms
  by (simp add: send_message_def send_message_body_def wallet_refused_valid
        content_empty_JStr)

lemma send_message_too_long:
  assumes "py_get data (ustr ''wallet'') = Inr wallet"
    and "validate_wallet wallet = Inr True"
    and "py_get data (ustr ''content'') = Inr (JStr c)"
    and "\<not> whitespace_only c" and "length c > 1000"
  shows "send_message ev s x data =
     (s, [Emit ''error'' (error_payload ''Message too long'') (To x)])"
  using assms
  by (simp add: send_message_def send_message_body_def wallet_refused_valid
        content_empty_JStr)

subsection \<open>The sample values\<close>

lemma py_get_send_payload:
  "py_get (send_payload w c) (ustr ''wallet'') = Inr (JStr w)"
  "py_get (send_payload w c) (ustr ''content'') = Inr (JStr c)"
  by (simp_all add: send_payload_def py_get_def ustr_def)

lemma sample_wallet_valid: "validate_wallet (JStr sample_wallet) = Inr True"
  by (simp add: validate_wallet_JStr sample_wallet_def spec_alphabet_def)

lemma whitespace_only_replicate: "whitespace_only (replicate n a) \<longleftrightarrow> n = 0 \<or> is_space a"
  by (auto simp: whitespace_only_def list_all_iff)

lemma sample_env_no_failure: "no_failure sample_env cs"
  by (simp add: no_failure_def sample_env_def list_all_iff)

lemma sample_env_utcnow:
  "isoformat (utcnow sample_env) = ustr ''2024-05-17T09:30:00.000412''"
  by (simp add: sample_env_def sample_time_def isoformat_def d2_def d4_def d6_def digit_def
        ustr_def)

lemma sample_env_db_now:
  "isoformat (db_now sample_env) = ustr ''2024-05-17T09:30:00''"
  by (simp add: sample_env_def sample_time_def isoformat_def d2_def d4_def d6_def digit_def
        ustr_def)

subsection \<open>The order of the content checks\<close>

text \<open>
  C9. The emptiness check comes before the length check: for a valid wallet and a
  content that is whitespace only and longer than 1000 characters, the handler sends
  the caller the error "Message cannot be empty", which is not "Message too long", and
  returns the store as it was. This holds for every environment, also one in which
  every driver call would raise: no driver call is made.
\<close>

theorem send_message_empty_before_length:
  assumes "py_get data (ustr ''wallet'') = Inr wallet"
    and "validate_wallet wallet = Inr True"
    and "py_get data (ustr ''content'') = Inr (JStr c)"
    and "whitespace_only c" and "length c > 1000"
  shows "send_message ev s x data =
           (s, [Emit ''error'' (error_payload ''Message cannot be empty'') (To x)])
         \<and> error_payload ''Message cannot be empty'' \<noteq> error_payload ''Message too long''"
  using assms
  by (simp add: send_message_empty error_payload_def ustr_def)

theorem send_message_empty_before_length_witness:
  "send_message \<lparr>fails = (\<lambda>c. True), db_now = sample_time, utcnow = sample_time,
                  int_of_str = (\<lambda>s. None), other_param = (\<lambda>v. None)\<rparr>
     empty_store ''a'' (send_payload sample_wallet (replicate 1001 32)) =
     (empty_store, [Emit ''error'' (error_payload ''Message cannot be empty'') (To ''a'')])"
  using send_message_empty_before_length [of "send_payload sample_wallet (replicate 1001 32)"
      "JStr sample_wallet" "replicate 1001 32"
      "\<lparr>fails = (\<lambda>c. True), db_now = sample_time, utcnow = sample_time,
         int_of_str = (\<lambda>s. None), other_param = (\<lambda>v. None)\<rparr>" empty_store "''a''"]
  by (simp add: py_get_send_payload sample_wallet_valid whitespace_only_replicate is_space_def)

text \<open>
  Against C4 as it is stated: a content of 1001 spaces is longer than 1000 characters
  and is answered with "Message cannot be empty", not with "Message too long".
\<close>

theorem content_checks_counterexample:
  "snd (send_message sample_env empty_store ''a''
          (send_payload sample_wallet (replicate 1001 32)))
     = [Emit ''error'' (error_payload ''Message cannot be empty'') (To ''a'')]
   \<and> snd (send_message sample_env empty_store ''a''
          (send_payload sample_wallet (replicate 1001 32)))
     \<noteq> [Emit ''error'' (error_payload ''Message too long'') (To ''a'')]"
proof -
  have "send_message sample_env empty_store ''a''
          (send_payload sample_wallet (replicate 1001 32)) =
        (empty_store, [Emit ''error'' (error_payload ''Message cannot be empty'') (To ''a'')])"
    by (rule send_message_empty [where wallet = "JStr sample_wallet" and c = "replicate 1001 32"])
       (simp_all add: py_get_send_payload sample_wallet_valid whitespace_only_replicate
          is_space_def)
  then show ?thesis
    by (simp add: error_payload_def ustr_def)
qed

text \<open>
  C4, amended. For a valid wallet: a content that is empty or whitespace only is
  refused with "Message cannot be empty"; a content with a character that is not
  whitespace and of raw length above 1000 is refused with "Message too long"; a content
  with such a character and of raw length exactly 1000 succeeds (no driver call
  raising): the row is inserted and \<^verbatim>\<open>new_message\<close> is emitted.
\<close>

theorem send_message_content_checks:
  assumes "py_get data (ustr ''wallet'') = Inr (JStr w)"
    and "validate_wallet (JStr w) = Inr True"
    and "py_get data (ustr ''content'') = Inr (JStr c)"
  shows "(whitespace_only c \<longrightarrow>
            send_message ev s x data =
              (s, [Emit ''error'' (error_payload ''Message cannot be empty'') (To x)]))
       \<and> (\<not> whitespace_only c \<and> length c > 1000 \<longrightarrow>
            send_message ev s x data =
              (s, [Emit ''error'' (error_payload ''Message too long'') (To x)]))
       \<and> (\<not> whitespace_only c \<and> length c = 1000 \<and> no_failure ev send_message_calls \<longrightarrow>
            send_message ev s x data =
              (snd (insert_message w c (db_now ev) (insert_user w s)),
               [Emit ''new_message''
                  (message_payload (JInt (next_id s)) (JStr w) (JStr c)
                     (JStr (isoformat (utcnow ev)))) (SkipSid x),
                Emit ''new_message''
                  (message_payload (JInt (next_id s)) (JStr w) (JStr c)
                     (JStr (isoformat (utcnow ev)))) (To x)]))"
  using assms send_message_empty [of data "JStr w" c ev s x]
    send_message_too_long [of data "JStr w" c ev s x]
    send_message_success [of data w c ev s x]
  by simp

theorem send_message_content_checks_witness:
  "send_message sample_env empty_store ''a'' (send_payload sample_wallet []) =
     (empty_store, [Emit ''error'' (error_payload ''Message cannot be empty'') (To ''a'')])
   \<and> send_message sample_env empty_store ''a'' (send_payload sample_wallet (replicate 7 32)) =
     (empty_store, [Emit ''error'' (error_payload ''Message cannot be empty'') (To ''a'')])
   \<and> send_message sample_env empty_store ''a'' (send_payload sample_wallet (replicate 1001 97)) =
     (empty_store, [Emit ''error'' (error_payload ''Message too long'') (To ''a'')])
   \<and> send_message sample_env empty_store ''a'' (send_payload sample_wallet (replicate 1000 97)) =
    (\<lparr>users = {sample_wallet},
      messages = [\<lparr>row_id = 1, row_sender = sample_wallet, row_content = replicate 1000 97,
                   row_created_at = sample_time\<rparr>],
      next_id = 2\<rparr>,
     [Emit ''new_message''
        (message_payload (JInt 1) (JStr sample_wallet) (JStr (replicate 1000 97))
           (JStr (ustr ''2024-05-17T09:30:00.000412''))) (SkipSid ''a''),
      Emit ''new_message''
        (message_payload (JInt 1) (JStr sample_wallet) (JStr (replicate 1000 97))
           (JStr (ustr ''2024-05-17T09:30:00.000412''))) (To ''a'')])"
  using send_message_content_checks [of "send_payload sample_wallet []"
      sample_wallet "[]" sample_env empty_store "''a''"]
    send_message_content_checks [of "send_payload sample_wallet (replicate 7 32)"
      sample_wallet "replicate 7 32" sample_env empty_store "''a''"]
    send_message_content_checks [of "send_payload sample_wallet (replicate 1001 97)"
      sample_wallet "replicate 1001 97" sample_env empty_store "''a''"]
    send_message_content_checks [of "send_payload sample_wallet (replicate 1000 97)"
      sample_wallet "replicate 1000 97" sample_env empty_store "''a''"]
  by (simp add: py_get_send_payload sample_wallet_valid whitespace_only_replicate is_space_def
        sample_env_no_failure sample_env_utcnow insert_message_def insert_user_def
        empty_store_def)
     (simp add: sample_env_def whitespace_only_def)

section \<open>What a handler can do\<close>

lemma wallet_refused_False:
  "wallet_refused wallet = Inr False \<Longrightarrow> validate_wallet wallet = Inr True"
  by (auto simp: wallet_refused_def split: if_splits sum.splits)

lemma content_empty_False:
  "content_empty content = Inr False \<Longrightarrow> \<exists>c. content = JStr c \<and> \<not> whitespace_only c"
  by (cases content) (auto simp: content_empty_JStr, auto simp: content_empty_def split: if_splits)

lemma send_message_db_cases:
  assumes "send_message_db ev s wallet content = (s', r)"
  shows "(\<exists>e. r = Inl e \<and> messages s' = messages s \<and> next_id s \<le> next_id s'
            \<and> (s' = s \<or> (\<exists>w. sql_text_param ev wallet = Inr w
                              \<and> users s' = insert w (users s))))
       \<or> (\<exists>w c. sql_text_param ev wallet = Inr w \<and> sql_text_param ev content = Inr c
            \<and> no_failure ev send_message_calls
            \<and> r = Inr (next_id s)
            \<and> s' = snd (insert_message w c (db_now ev) (insert_user w s)))"
  using assms
  by (cases "sql_text_param ev wallet"; cases "sql_text_param ev content")
     (auto simp: send_message_db_def Let_def insert_message_def insert_user_def rollback_def
        no_failure_def send_message_calls_def split: if_splits)

lemma send_message_outcome:
  assumes "send_message ev s x data = (s', out)"
  shows "(\<exists>m. out = [Emit ''error'' (error_payload m) (To x)]
            \<and> messages s' = messages s \<and> next_id s \<le> next_id s' \<and> users s \<subseteq> users s')
       \<or> (\<exists>wallet w c. py_get data (ustr ''wallet'') = Inr wallet
            \<and> py_get data (ustr ''content'') = Inr (JStr c)
            \<and> validate_wallet wallet = Inr True
            \<and> sql_text_param ev wallet = Inr w
            \<and> \<not> whitespace_only c \<and> length c \<le> 1000
            \<and> no_failure ev send_message_calls
            \<and> s' = snd (insert_message w c (db_now ev) (insert_user w s))
            \<and> out = [Emit ''new_message''
                        (message_payload (JInt (next_id s)) wallet (JStr c)
                           (JStr (isoformat (utcnow ev)))) (SkipSid x),
                      Emit ''new_message''
                        (message_payload (JInt (next_id s)) wallet (JStr c)
                           (JStr (isoformat (utcnow ev)))) (To x)])"
proof (cases "send_message_body ev s x data")
  case (Pair s1 r)
  show ?thesis
  proof (cases r)
    case (Inl e)
    with Pair assms have out: "out = [Emit ''error'' (error_payload ''Internal server error'') (To x)]"
      and s1: "s' = s1"
      by (simp_all add: send_message_def)
    from Pair Inl have "messages s1 = messages s \<and> next_id s \<le> next_id s1 \<and> users s \<subseteq> users s1"
      by (auto simp: send_message_body_def Let_def
            split: sum.splits bool.splits if_splits prod.splits
            dest!: send_message_db_cases)
    with out s1 show ?thesis by blast
  next
    case (Inr ems)
    with Pair assms have out: "out = ems" and s1: "s' = s1"
      by (simp_all add: send_message_def)
    from Pair Inr show ?thesis
      unfolding out s1
      by (auto simp: send_message_body_def Let_def
            split: sum.splits bool.splits if_splits prod.splits
            dest!: send_message_db_cases wallet_refused_False content_empty_False)
  qed
qed

lemma login_db_cases:
  assumes "login_db ev s wallet = (s', r)"
  shows "(\<exists>e. r = Inl e \<and> s' = s)
       \<or> (\<exists>w. sql_text_param ev wallet = Inr w \<and> no_failure ev login_calls \<and> r = Inr ()
            \<and> s' = insert_user w s)"
  using assms
  by (cases "sql_text_param ev wallet")
     (auto simp: login_db_def no_failure_def login_calls_def split: if_splits)

lemma login_outcome:
  assumes "login ev s x data = (s', out)"
  shows "(\<exists>m. out = [Emit ''error'' (error_payload m) (To x)] \<and> s' = s)
       \<or> (\<exists>wallet w. py_get data (ustr ''wallet'') = Inr wallet
            \<and> validate_wallet wallet = Inr True
            \<and> sql_text_param ev wallet = Inr w
            \<and> no_failure ev login_calls
            \<and> s' = insert_user w s
            \<and> out = [Emit ''login_success'' (JDict [(ustr ''wallet'', wallet)]) (To x)])"
proof (cases "login_body ev s x data")
  case (Pair s1 r)
  show ?thesis
  proof (cases r)
    case (Inl e)
    with Pair assms have "out = [Emit ''error'' (error_payload ''Internal server error'') (To x)]"
      and "s' = s1"
      by (simp_all add: login_def)
    moreover from Pair Inl have "s1 = s"
      by (auto simp: login_body_def split: sum.splits bool.splits prod.splits
            dest!: login_db_cases)
    ultimately show ?thesis by blast
  next
    case (Inr ems)
    with Pair assms have out: "out = ems" and s1: "s' = s1"
      by (simp_all add: login_def)
    from Pair Inr show ?thesis
      unfolding out s1
      by (auto simp: login_body_def split: sum.splits bool.splits prod.splits
            dest!: login_db_cases wallet_refused_False)
  qed
qed

lemma fetch_messages_outcome:
  assumes "fetch_messages ev s x data = (s', out)"
  shows "s' = s
       \<and> (out = [Emit ''error'' (error_payload ''Internal server error'') (To x)]
          \<or> (\<exists>limit rows. fetch_limit ev data = Inr limit
               \<and> select_recent limit s = Inr rows
               \<and> no_failure ev fetch_messages_calls
               \<and> out = [Emit ''messages'' (JList (map row_payload rows)) (To x)]))"
  using assms
  by (auto simp: fetch_messages_def fetch_messages_body_def select_recent_def
        no_failure_def fetch_messages_calls_def
        split: sum.splits if_splits)

section \<open>The handlers as failure boundaries\<close>

text \<open>
  Called with a payload, whatever the payload, the store and the driver calls that
  raise, each handler returns: the exception of its body is caught by \<^verbatim>\<open>catch_all\<close> and
  answered with the generic error. Its emissions are either its success event (to the
  caller; for \<^verbatim>\<open>send_message\<close> the broadcast and the echo) or exactly one \<^verbatim>\<open>error\<close>
  event, addressed to the caller.
\<close>

lemma handler_emissions:
  "((\<exists>p. snd (login ev s x data) = [Emit ''login_success'' p (To x)])
      \<or> (\<exists>m. snd (login ev s x data) = [Emit ''error'' (error_payload m) (To x)]))
   \<and> ((\<exists>p. snd (send_message ev s x data) =
              [Emit ''new_message'' p (SkipSid x), Emit ''new_message'' p (To x)])
      \<or> (\<exists>m. snd (send_message ev s x data) = [Emit ''error'' (error_payload m) (To x)]))
   \<and> ((\<exists>p. snd (fetch_messages ev s x data) = [Emit ''messages'' p (To x)])
      \<or> (\<exists>m. snd (fetch_messages ev s x data) = [Emit ''error'' (error_payload m) (To x)]))
   \<and> (snd (login_body ev s x data) = Inl e \<longrightarrow>
        snd (login ev s x data) =
          [Emit ''error'' (error_payload ''Internal server error'') (To x)])
   \<and> (snd (send_message_body ev s x data) = Inl e \<longrightarrow>
        snd (send_message ev s x data) =
          [Emit ''error'' (error_payload ''Internal server error'') (To x)])
   \<and> (snd (fetch_messages_body ev s x data) = Inl e \<longrightarrow>
        snd (fetch_messages ev s x data) =
          [Emit ''error'' (error_payload ''Internal server error'') (To x)])"
proof -
  have "(\<exists>p. snd (login ev s x data) = [Emit ''login_success'' p (To x)])
      \<or> (\<exists>m. snd (login ev s x data) = [Emit ''error'' (error_payload m) (To x)])"
    using login_outcome [of ev s x data "fst (login ev s x data)" "snd (login ev s x data)"]
    by auto
  moreover have "(\<exists>p. snd (send_message ev s x data) =
              [Emit ''new_message'' p (SkipSid x), Emit ''new_message'' p (To x)])
      \<or> (\<exists>m. snd (send_message ev s x data) = [Emit ''error'' (error_payload m) (To x)])"
    using send_message_outcome [of ev s x data "fst (send_message ev s x data)"
        "snd (send_message ev s x data)"]
    by auto
  moreover have "(\<exists>p. snd (fetch_messages ev s x data) = [Emit ''messages'' p (To x)])
      \<or> (\<exists>m. snd (fetch_messages ev s x data) = [Emit ''error'' (error_payload m) (To x)])"
    using fetch_messages_outcome [of ev s x data "fst (fetch_messages ev s x data)"
        "snd (fetch_messages ev s x data)"]
    by auto
  moreover have "snd (catch_all x b) =
      [Emit ''error'' (error_payload ''Internal server error'') (To x)]"
    if "snd b = Inl e" for b :: "store \<times> (exn + emission list)"
    using that by (cases b) simp
  ultimately show ?thesis
    by (simp add: login_def send_message_def fetch_messages_def)
qed

text \<open>
  C7. Every handler is to be a failure boundary for every input: no exception leaves
  it, and the caller receives its success event or an \<^verbatim>\<open>error\<close> event. An event sent
  without payload is such an input. \<^verbatim>\<open>fetch_messages\<close>, whose \<^verbatim>\<open>data\<close> has a default,
  answers it with an event. \<^verbatim>\<open>login\<close> and \<^verbatim>\<open>send_message\<close>, whose \<^verbatim>\<open>data\<close> has none, raise
  \<^verbatim>\<open>TypeError\<close> at the call, outside their \<^verbatim>\<open>try\<close>: the exception leaves the handler, the
  store is untouched and the caller receives nothing.
\<close>

theorem handler_call_without_payload:
  "login_call ev s x [] = (s, Inl TypeError)
   \<and> send_message_call ev s x [] = (s, Inl TypeError)
   \<and> (\<exists>out. fetch_messages_call ev s x [] = (s, Inr out) \<and> out \<noteq> [])"
proof -
  obtain s' out where f: "fetch_messages ev s x JNull = (s', out)"
    by (cases "fetch_messages ev s x JNull")
  from fetch_messages_outcome [OF f] have "s' = s" and "out \<noteq> []"
    by auto
  with f show ?thesis
    by (simp add: login_call_def send_message_call_def fetch_messages_call_def)
qed

section \<open>The two commits of send\_message\<close>

text \<open>
  Against C2 as it is stated: the first driver call after the user's commit raises, and
  the store keeps the new user row without a message of that user.
\<close>


theorem insert_message_not_atomic_counterexample:
  "send_message_db (sample_env\<lparr>fails := (\<lambda>c. c = DbExecute 2)\<rparr>) empty_store
      (JStr sample_wallet) (JStr (ustr ''hello''))
     = (\<lparr>users = {sample_wallet}, messages = [], next_id = 1\<rparr>, Inl StoreError)
   \<and> \<lparr>users = {sample_wallet}, messages = [], next_id = 1\<rparr> \<noteq> empty_store"
  by (simp add: send_message_db_def sample_env_def insert_user_def empty_store_def)

text \<open>
  C2, amended. When the insertion of a message fails, the message table is as it was,
  and the user table is as it was or has gained one row, the one that the first
  statement inserts for the wallet: the wallet itself when it is a string, the text
  the store makes of it otherwise. When the failure is no later than the first commit,
  the store is unchanged.
\<close>

theorem insert_message_failure:
  assumes "send_message_db ev s wallet content = (s', Inl e)"
  shows "messages s' = messages s
       \<and> (users s' = users s
            \<or> (\<exists>w. sql_text_param ev wallet = Inr w \<and> users s' = insert w (users s)
                   \<and> (\<forall>w'. wallet = JStr w' \<longrightarrow> w = w')))
       \<and> (fails ev DbConnect \<or> fails ev DbCursor \<or> fails ev (DbExecute 1)
            \<or> fails ev (DbCommit 1) \<longrightarrow> s' = s)"
  using assms
  by (cases "sql_text_param ev wallet"; cases "sql_text_param ev content")
     (auto simp: send_message_db_def Let_def insert_message_def insert_user_def rollback_def
        split: if_splits)

theorem insert_message_failure_witness:
  "send_message_db (sample_env\<lparr>fails := (\<lambda>c. c = DbCommit 2)\<rparr>) empty_store
      (JStr sample_wallet) (JStr (ustr ''hello''))
     = (\<lparr>users = {sample_wallet}, messages = [], next_id = 2\<rparr>, Inl StoreError)
   \<and> send_message_db (sample_env\<lparr>fails := (\<lambda>c. c = DbCommit 1)\<rparr>) empty_store
      (JStr sample_wallet) (JStr (ustr ''hello''))
     = (empty_store, Inl StoreError)
   \<and> sql_text_param (sample_env\<lparr>fails := (\<lambda>c. c = DbCommit 2)\<rparr>) (JStr sample_wallet)
     = Inr sample_wallet"
  using insert_message_failure [of "sample_env\<lparr>fails := (\<lambda>c. c = DbCommit 2)\<rparr>" empty_store
      "JStr sample_wallet" "JStr (ustr ''hello'')"
      "\<lparr>users = {sample_wallet}, messages = [], next_id = 2\<rparr>" StoreError]
    insert_message_failure [of "sample_env\<lparr>fails := (\<lambda>c. c = DbCommit 1)\<rparr>" empty_store
      "JStr sample_wallet" "JStr (ustr ''hello'')" empty_store StoreError]
  by (simp add: send_message_db_def sample_env_def insert_user_def empty_store_def
        insert_message_def rollback_def)

section \<open>The ids of messages\<close>

lemma payload_id_message_payload [simp]:
  "payload_id (message_payload (JInt i) w c t) = Some i"
  by (simp add: payload_id_def message_payload_def py_get_def)

lemma ids_below_next_mono:
  "ids_below_next s \<Longrightarrow> messages s' = messages s \<Longrightarrow> next_id s \<le> next_id s'
     \<Longrightarrow> ids_below_next s'"
  by (auto simp: ids_below_next_def list_all_iff)

lemma ids_below_next_insert:
  "ids_below_next s \<Longrightarrow>
     ids_below_next (snd (insert_message w c t (insert_user w s)))"
  by (auto simp: ids_below_next_def list_all_iff insert_message_def insert_user_def)

lemma send_message_ids:
  assumes "send_message ev s x data = (s', out)" and "ids_below_next s"
  shows "ids_below_next s' \<and> ids_between s s' out"
  using send_message_outcome [OF assms(1)]
proof (elim disjE exE conjE)
  fix m
  assume "out = [Emit ''error'' (error_payload m) (To x)]"
    and "messages s' = messages s" and "next_id s \<le> next_id s'"
  with assms(2) show ?thesis
    by (auto simp: ids_between_def intro: ids_below_next_mono)
next
  fix wallet w c
  assume s': "s' = snd (insert_message w c (db_now ev) (insert_user w s))"
    and out: "out = [Emit ''new_message''
                        (message_payload (JInt (next_id s)) wallet (JStr c)
                           (JStr (isoformat (utcnow ev)))) (SkipSid x),
                      Emit ''new_message''
                        (message_payload (JInt (next_id s)) wallet (JStr c)
                           (JStr (isoformat (utcnow ev)))) (To x)]"
  have "ids_below_next s'"
    unfolding s' by (rule ids_below_next_insert [OF assms(2)])
  moreover have "ids_between s s' out"
    unfolding s' out by (simp add: ids_between_def insert_message_def insert_user_def)
  ultimately show ?thesis ..
qed

lemma login_ids:
  assumes "login ev s x data = (s', out)" and "ids_below_next s"
  shows "ids_below_next s' \<and> ids_between s s' out"
  using login_outcome [OF assms(1)] assms(2)
  by (auto simp: ids_between_def insert_user_def ids_below_next_def)

lemma fetch_messages_ids:
  assumes "fetch_messages ev s x data = (s', out)" and "ids_below_next s"
  shows "ids_below_next s' \<and> ids_between s s' out"
  using fetch_messages_outcome [OF assms(1)] assms(2)
  by (auto simp: ids_between_def)

lemma step_ids:
  assumes "step sv e = (sv', out)" and "ids_below_next (db sv)"
  shows "ids_below_next (db sv') \<and> ids_between (db sv) (db sv') out"
proof (cases e)
  case (Pair ev evt)
  show ?thesis
  proof (cases evt)
    case (EvLogin x data)
    with Pair assms login_ids [of ev "db sv" x data] show ?thesis
      by (auto split: prod.splits)
  next
    case (EvSendMessage x data)
    with Pair assms send_message_ids [of ev "db sv" x data] show ?thesis
      by (auto split: prod.splits)
  next
    case (EvFetchMessages x data)
    with Pair assms fetch_messages_ids [of ev "db sv" x data] show ?thesis
      by (auto split: prod.splits)
  qed (use Pair assms in \<open>auto simp: ids_between_def\<close>)
qed

lemma new_message_ids_append:
  "new_message_ids (xs @ ys) = new_message_ids xs @ new_message_ids ys"
  by (induction xs rule: new_message_ids.induct) simp_all

lemma ids_between_trans:
  "ids_between s s1 out1 \<Longrightarrow> ids_between s1 s2 out2 \<Longrightarrow> ids_between s s2 (out1 @ out2)"
  by (auto simp: ids_between_def new_message_ids_append list_all_iff)

lemma run_ids:
  "run sv es = (sv', out) \<Longrightarrow> ids_below_next (db sv)
     \<Longrightarrow> ids_below_next (db sv') \<and> ids_between (db sv) (db sv') out"
proof (induction es arbitrary: sv sv' out)
  case Nil
  then show ?case by (simp add: ids_between_def)
next
  case (Cons e es)
  obtain sv1 out1 where st: "step sv e = (sv1, out1)"
    by (cases "step sv e")
  obtain sv2 out2 where rn: "run sv1 es = (sv2, out2)"
    by (cases "run sv1 es")
  from Cons.prems(1) st rn have eq: "sv' = sv2" "out = out1 @ out2"
    by simp_all
  from step_ids [OF st Cons.prems(2)]
  have a: "ids_below_next (db sv1)" and b: "ids_between (db sv) (db sv1) out1"
    by simp_all
  from Cons.IH [OF rn a]
  have c: "ids_below_next (db sv2)" and d: "ids_between (db sv1) (db sv2) out2"
    by simp_all
  from c ids_between_trans [OF b d] show ?case
    unfolding eq by simp
qed

section \<open>The broadcast of a message\<close>

lemma initial_server_ids: "ids_below_next (db initial_server)"
  by (simp add: initial_server_def empty_store_def ids_below_next_def)

lemma step_send_message:
  "step sv (ev, EvSendMessage x data) = (sv', out) \<Longrightarrow>
     \<exists>s'. send_message ev (db sv) x data = (s', out) \<and> sv' = sv\<lparr>db := s'\<rparr>"
  by (auto split: prod.splits)

text \<open>
  C3. When \<^verbatim>\<open>send_message\<close> succeeds (it emits no \<^verbatim>\<open>error\<close> event), in a state the server
  has reached from its start, its emissions are \<^verbatim>\<open>new_message\<close> with one payload, first
  to all connected sessions but the sender, then to the sender. The id of the payload is
  the next value of the sequence: it is greater than the id of every row of the table
  and than every id a \<^verbatim>\<open>new_message\<close> event carried before.
\<close>

theorem send_message_broadcast:
  assumes "run initial_server es = (sv, out0)"
    and "step sv (ev, EvSendMessage x data) = (sv', out)"
    and "\<not> list_ex is_error out"
  shows "\<exists>p i. out = [Emit ''new_message'' p (SkipSid x), Emit ''new_message'' p (To x)]
           \<and> recipients (connected sv) (SkipSid x) = connected sv - {x}
           \<and> recipients (connected sv) (To x) = connected sv \<inter> {x}
           \<and> payload_id p = Some i
           \<and> i = next_id (db sv)
           \<and> next_id (db sv') = i + 1
           \<and> list_all (\<lambda>r. row_id r < i) (messages (db sv))
           \<and> list_all (\<lambda>j. j < i) (new_message_ids out0)"
proof -
  from run_ids [OF assms(1) initial_server_ids]
  have inv: "ids_below_next (db sv)"
    and before: "list_all (\<lambda>j. j < next_id (db sv)) (new_message_ids out0)"
    by (auto simp: ids_between_def list_all_iff)
  from step_send_message [OF assms(2)] obtain s'
    where sm: "send_message ev (db sv) x data = (s', out)" and sv': "sv' = sv\<lparr>db := s'\<rparr>"
    by blast
  from send_message_outcome [OF sm] assms(3)
  obtain wallet w c
    where s': "s' = snd (insert_message w c (db_now ev) (insert_user w (db sv)))"
    and out: "out = [Emit ''new_message''
                        (message_payload (JInt (next_id (db sv))) wallet (JStr c)
                           (JStr (isoformat (utcnow ev)))) (SkipSid x),
                      Emit ''new_message''
                        (message_payload (JInt (next_id (db sv))) wallet (JStr c)
                           (JStr (isoformat (utcnow ev)))) (To x)]"
    by auto
  have "next_id (db sv') = next_id (db sv) + 1"
    by (simp add: sv' s' insert_message_def insert_user_def)
  with inv before out show ?thesis
    by (simp add: ids_below_next_def)
qed

theorem send_message_broadcast_witness:
  "run initial_server
     [(sample_env, EvConnect ''a''), (sample_env, EvConnect ''b''),
      (sample_env, EvSendMessage ''b'' (send_payload sample_wallet (ustr ''hi'')))]
   = (\<lparr>db = \<lparr>users = {sample_wallet},
              messages = [\<lparr>row_id = 1, row_sender = sample_wallet, row_content = ustr ''hi'',
                           row_created_at = sample_time\<rparr>],
              next_id = 2\<rparr>,
       connected = {''a'', ''b''}\<rparr>,
      [Emit ''new_message''
         (message_payload (JInt 1) (JStr sample_wallet) (JStr (ustr ''hi''))
            (JStr (ustr ''2024-05-17T09:30:00.000412''))) (SkipSid ''b''),
       Emit ''new_message''
         (message_payload (JInt 1) (JStr sample_wallet) (JStr (ustr ''hi''))
            (JStr (ustr ''2024-05-17T09:30:00.000412''))) (To ''b'')])
   \<and> snd (step \<lparr>db = \<lparr>users = {sample_wallet},
              messages = [\<lparr>row_id = 1, row_sender = sample_wallet, row_content = ustr ''hi'',
                           row_created_at = sample_time\<rparr>],
              next_id = 2\<rparr>,
       connected = {''a'', ''b''}\<rparr>
        (sample_env, EvSendMessage ''a'' (send_payload sample_wallet (ustr ''hello''))))
   = [Emit ''new_message''
         (message_payload (JInt 2) (JStr sample_wallet) (JStr (ustr ''hello''))
            (JStr (ustr ''2024-05-17T09:30:00.000412''))) (SkipSid ''a''),
       Emit ''new_message''
         (message_payload (JInt 2) (JStr sample_wallet) (JStr (ustr ''hello''))
            (JStr (ustr ''2024-05-17T09:30:00.000412''))) (To ''a'')]
   \<and> recipients {''a'', ''b''} (SkipSid ''a'') = {''b''}
   \<and> recipients {''a'', ''b''} (To ''a'') = {''a''}"
proof -
  let ?s1 = "\<lparr>users = {sample_wallet},
              messages = [\<lparr>row_id = 1, row_sender = sample_wallet, row_content = ustr ''hi'',
                           row_created_at = sample_time\<rparr>],
              next_id = 2\<rparr>"
  let ?sv = "\<lparr>db = ?s1, connected = {''a'', ''b''}\<rparr>"
  have ws: "\<not> whitespace_only (ustr ''hi'')" "\<not> whitespace_only (ustr ''hello'')"
    by (simp_all add: whitespace_only_def ustr_def is_space_def)
  have ln: "length (ustr ''hi'') \<le> 1000" "length (ustr ''hello'') \<le> 1000"
    by (simp_all add: ustr_def)
  have t: "db_now sample_env = sample_time"
    by (simp add: sample_env_def)
  have m1: "send_message sample_env empty_store ''b'' (send_payload sample_wallet (ustr ''hi''))
     = (?s1,
      [Emit ''new_message''
         (message_payload (JInt 1) (JStr sample_wallet) (JStr (ustr ''hi''))
            (JStr (ustr ''2024-05-17T09:30:00.000412''))) (SkipSid ''b''),
       Emit ''new_message''
         (message_payload (JInt 1) (JStr sample_wallet) (JStr (ustr ''hi''))
            (JStr (ustr ''2024-05-17T09:30:00.000412''))) (To ''b'')])"
    using send_message_success [OF py_get_send_payload(1) sample_wallet_valid
        py_get_send_payload(2) ws(1) ln(1) sample_env_no_failure, of empty_store "''b''"]
    by (simp add: sample_env_utcnow t insert_message_def insert_user_def empty_store_def)
  have m2: "send_message sample_env ?s1 ''a'' (send_payload sample_wallet (ustr ''hello''))
     = (snd (insert_message sample_wallet (ustr ''hello'') sample_time
               (insert_user sample_wallet ?s1)),
      [Emit ''new_message''
         (message_payload (JInt 2) (JStr sample_wallet) (JStr (ustr ''hello''))
            (JStr (ustr ''2024-05-17T09:30:00.000412''))) (SkipSid ''a''),
       Emit ''new_message''
         (message_payload (JInt 2) (JStr sample_wallet) (JStr (ustr ''hello''))
            (JStr (ustr ''2024-05-17T09:30:00.000412''))) (To ''a'')])"
    using send_message_success [OF py_get_send_payload(1) sample_wallet_valid
        py_get_send_payload(2) ws(2) ln(2) sample_env_no_failure, of ?s1 "''a''"]
    by (simp add: sample_env_utcnow t)
  have r: "run initial_server
     [(sample_env, EvConnect ''a''), (sample_env, EvConnect ''b''),
      (sample_env, EvSendMessage ''b'' (send_payload sample_wallet (ustr ''hi'')))]
   = (?sv,
      [Emit ''new_message''
         (message_payload (JInt 1) (JStr sample_wallet) (JStr (ustr ''hi''))
            (JStr (ustr ''2024-05-17T09:30:00.000412''))) (SkipSid ''b''),
       Emit ''new_message''
         (message_payload (JInt 1) (JStr sample_wallet) (JStr (ustr ''hi''))
            (JStr (ustr ''2024-05-17T09:30:00.000412''))) (To ''b'')])"
    by (simp add: initial_server_def m1 insert_commute)
  obtain sv' out where st:
    "step ?sv (sample_env, EvSendMessage ''a'' (send_payload sample_wallet (ustr ''hello'')))
       = (sv', out)"
    by (cases "step ?sv (sample_env, EvSendMessage ''a''
                 (send_payload sample_wallet (ustr ''hello'')))")
  then have out: "out = [Emit ''new_message''
         (message_payload (JInt 2) (JStr sample_wallet) (JStr (ustr ''hello''))
            (JStr (ustr ''2024-05-17T09:30:00.000412''))) (SkipSid ''a''),
       Emit ''new_message''
         (message_payload (JInt 2) (JStr sample_wallet) (JStr (ustr ''hello''))
            (JStr (ustr ''2024-05-17T09:30:00.000412''))) (To ''a'')]"
    by (auto simp: m2)
  have ne: "\<not> list_ex is_error out"
    by (simp add: out)
  from send_message_broadcast [OF r st ne] r st out show ?thesis
    by auto
qed

section \<open>Sending without login\<close>

text \<open>
  C8. A session that has not issued a single \<^verbatim>\<open>login\<close> since the server started sends a
  message with a valid wallet and a valid content; no driver call raises. The handler
  succeeds: the user row is there afterwards (created if it was absent), the message row
  is appended and \<^verbatim>\<open>new_message\<close> is emitted to the others and to the sender.
\<close>

theorem send_message_without_login:
  assumes "run initial_server es = (sv, out0)"
    and "list_all (\<lambda>e. \<not> is_login_of x (snd e)) es"
    and "py_get data (ustr ''wallet'') = Inr (JStr w)"
    and "validate_wallet (JStr w) = Inr True"
    and "py_get data (ustr ''content'') = Inr (JStr c)"
    and "\<not> whitespace_only c" and "length c \<le> 1000"
    and "no_failure ev send_message_calls"
  shows "\<exists>sv' p. step sv (ev, EvSendMessage x data) =
                  (sv', [Emit ''new_message'' p (SkipSid x), Emit ''new_message'' p (To x)])
           \<and> p = message_payload (JInt (next_id (db sv))) (JStr w) (JStr c)
                   (JStr (isoformat (utcnow ev)))
           \<and> users (db sv') = insert w (users (db sv))
           \<and> messages (db sv') = messages (db sv) @
                [\<lparr>row_id = next_id (db sv), row_sender = w, row_content = c,
                  row_created_at = db_now ev\<rparr>]"
  using send_message_success [OF assms(3-8), of "db sv" x]
  by (simp add: insert_message_def insert_user_def)

theorem send_message_without_login_witness:
  "run initial_server [(sample_env, EvConnect ''a'')]
     = (\<lparr>db = empty_store, connected = {''a''}\<rparr>, [])
   \<and> sample_wallet \<notin> users empty_store
   \<and> step \<lparr>db = empty_store, connected = {''a''}\<rparr>
        (sample_env, EvSendMessage ''a'' (send_payload sample_wallet (ustr ''hello'')))
     = (\<lparr>db = \<lparr>users = {sample_wallet},
               messages = [\<lparr>row_id = 1, row_sender = sample_wallet,
                            row_content = ustr ''hello'', row_created_at = sample_time\<rparr>],
               next_id = 2\<rparr>,
         connected = {''a''}\<rparr>,
        [Emit ''new_message''
           (message_payload (JInt 1) (JStr sample_wallet) (JStr (ustr ''hello''))
              (JStr (ustr ''2024-05-17T09:30:00.000412''))) (SkipSid ''a''),
         Emit ''new_message''
           (message_payload (JInt 1) (JStr sample_wallet) (JStr (ustr ''hello''))
              (JStr (ustr ''2024-05-17T09:30:00.000412''))) (To ''a'')])"
proof -
  have r: "run initial_server [(sample_env, EvConnect ''a'')]
             = (\<lparr>db = empty_store, connected = {''a''}\<rparr>, [])"
    by (simp add: initial_server_def)
  have nl: "list_all (\<lambda>e. \<not> is_login_of ''a'' (snd e)) [(sample_env, EvConnect ''a'')]"
    by simp
  have ws: "\<not> whitespace_only (ustr ''hello'')"
    by (simp add: whitespace_only_def ustr_def is_space_def)
  have ln: "length (ustr ''hello'') \<le> 1000"
    by (simp add: ustr_def)
  from send_message_without_login [OF r nl py_get_send_payload(1) sample_wallet_valid
      py_get_send_payload(2) ws ln sample_env_no_failure]
  obtain sv' where st: "step \<lparr>db = empty_store, connected = {''a''}\<rparr>
        (sample_env, EvSendMessage ''a'' (send_payload sample_wallet (ustr ''hello'')))
        = (sv', [Emit ''new_message''
           (message_payload (JInt (next_id empty_store)) (JStr sample_wallet)
              (JStr (ustr ''hello'')) (JStr (isoformat (utcnow sample_env)))) (SkipSid ''a''),
         Emit ''new_message''
           (message_payload (JInt (next_id empty_store)) (JStr sample_wallet)
              (JStr (ustr ''hello'')) (JStr (isoformat (utcnow sample_env)))) (To ''a'')])"
    by auto
  have t: "db_now sample_env = sample_time"
    by (simp add: sample_env_def)
  have m: "send_message sample_env empty_store ''a''
             (send_payload sample_wallet (ustr ''hello''))
     = (\<lparr>users = {sample_wallet},
         messages = [\<lparr>row_id = 1, row_sender = sample_wallet,
                      row_content = ustr ''hello'', row_created_at = sample_time\<rparr>],
         next_id = 2\<rparr>,
      [Emit ''new_message''
         (message_payload (JInt 1) (JStr sample_wallet) (JStr (ustr ''hello''))
            (JStr (ustr ''2024-05-17T09:30:00.000412''))) (SkipSid ''a''),
       Emit ''new_message''
         (message_payload (JInt 1) (JStr sample_wallet) (JStr (ustr ''hello''))
            (JStr (ustr ''2024-05-17T09:30:00.000412''))) (To ''a'')])"
    using send_message_success [OF py_get_send_payload(1) sample_wallet_valid
        py_get_send_payload(2) ws ln sample_env_no_failure, of empty_store "''a''"]
    by (simp add: sample_env_utcnow t insert_message_def insert_user_def empty_store_def)
  from st have "sv' = \<lparr>db = \<lparr>users = {sample_wallet},
               messages = [\<lparr>row_id = 1, row_sender = sample_wallet,
                            row_content = ustr ''hello'', row_created_at = sample_time\<rparr>],
               next_id = 2\<rparr>,
         connected = {''a''}\<rparr>"
    by (simp add: m)
  with st r show ?thesis
    by (simp add: sample_env_utcnow empty_store_def)
qed

section \<open>The history\<close>

lemma newest_first_select:
  "newest_first (rev (sort_key (\<lambda>r. ts_key (row_created_at r)) xs))"
proof -
  have "sorted (map (\<lambda>r. ts_key (row_created_at r))
          (sort_key (\<lambda>r. ts_key (row_created_at r)) xs))"
    by (rule sorted_sort_key)
  then show ?thesis
    by (simp add: newest_first_def sorted_wrt_rev sorted_map)
qed

lemma select_recent_rows:
  assumes "select_recent limit s = Inr rows"
  shows "0 \<le> limit \<and> recent_rows limit s rows"
proof -
  from assms have l: "0 \<le> limit"
    and r: "rows = take (nat limit) (rev (sort_key (\<lambda>r. ts_key (row_created_at r)) (messages s)))"
    by (auto simp: select_recent_def split: if_splits)
  have "mset (rev (sort_key (\<lambda>r. ts_key (row_created_at r)) (messages s))) = mset (messages s)"
    by simp
  with r newest_first_select [of "messages s"] have "recent_rows limit s rows"
    unfolding recent_rows_def by blast
  with l show ?thesis ..
qed

lemma recent_rows_facts:
  assumes "recent_rows limit s rows"
  shows "length rows \<le> nat limit" and "newest_first rows" and "set rows \<subseteq> set (messages s)"
proof -
  from assms obtain ordered where m: "mset ordered = mset (messages s)"
    and n: "newest_first ordered" and r: "rows = take (nat limit) ordered"
    unfolding recent_rows_def by blast
  show "length rows \<le> nat limit"
    by (simp add: r)
  from n show "newest_first rows"
    unfolding r newest_first_def by (rule sorted_wrt_take)
  from m have "set ordered = set (messages s)"
    by (rule mset_eq_setD)
  then show "set rows \<subseteq> set (messages s)"
    unfolding r using set_take_subset [of "nat limit" ordered] by simp
qed

lemma fetch_limit_default:
  "fetch_limit ev JNull = Inr 50"
  "map_of kvs (ustr ''limit'') = None \<Longrightarrow> fetch_limit ev (JDict kvs) = Inr 50"
  by (simp_all add: fetch_limit_def)

lemma fetch_limit_int:
  "map_of kvs (ustr ''limit'') = Some (JInt n) \<Longrightarrow> fetch_limit ev (JDict kvs) = Inr (min n 100)"
  by (auto simp: fetch_limit_def)

lemma fetch_messages_ok:
  assumes "no_failure ev fetch_messages_calls" and "fetch_limit ev data = Inr limit"
  shows "fetch_messages ev s x data =
           (s, case select_recent limit s of
                 Inl e \<Rightarrow> [Emit ''error'' (error_payload ''Internal server error'') (To x)]
               | Inr rows \<Rightarrow> [Emit ''messages'' (JList (map row_payload rows)) (To x)])"
  using assms
  by (simp add: fetch_messages_def fetch_messages_body_def no_failure_def
        fetch_messages_calls_def split: sum.splits)

lemma fetch_messages_rows:
  assumes "no_failure ev fetch_messages_calls" and "fetch_limit ev data = Inr limit"
    and "0 \<le> limit"
  shows "\<exists>rows. fetch_messages ev s x data =
                  (s, [Emit ''messages'' (JList (map row_payload rows)) (To x)])
           \<and> recent_rows limit s rows \<and> length rows \<le> nat limit \<and> newest_first rows"
proof -
  from assms(3) obtain rows where sel: "select_recent limit s = Inr rows"
    by (simp add: select_recent_def)
  from select_recent_rows [OF sel] have rr: "recent_rows limit s rows" ..
  from fetch_messages_ok [OF assms(1,2), of s x] sel
  have "fetch_messages ev s x data =
          (s, [Emit ''messages'' (JList (map row_payload rows)) (To x)])"
    by simp
  with rr recent_rows_facts(1,2) [OF rr] show ?thesis by blast
qed

text \<open>
  C5. When no driver call raises: without payload, or with a dict that has no
  \<^verbatim>\<open>limit\<close>, the limit is 50 and at most 50 rows are sent; with an integer \<^verbatim>\<open>limit\<close>
  the limit is \<^verbatim>\<open>min(limit, 100)\<close>, and, when it is not negative, at most that many
  rows are sent; with \<^verbatim>\<open>limit\<close> 0 the event \<^verbatim>\<open>messages\<close> carries the empty sequence; a
  negative limit is refused by the store and answered with the generic error. In every
  case the rows sent are the newest of the table, the newest first.
\<close>

theorem fetch_messages_limits:
  assumes "no_failure ev fetch_messages_calls"
  shows "(data = JNull \<or> (\<exists>kvs. data = JDict kvs \<and> map_of kvs (ustr ''limit'') = None) \<longrightarrow>
            fetch_limit ev data = Inr 50
            \<and> (\<exists>rows. fetch_messages ev s x data =
                  (s, [Emit ''messages'' (JList (map row_payload rows)) (To x)])
                \<and> recent_rows 50 s rows \<and> length rows \<le> 50 \<and> newest_first rows))
       \<and> (\<forall>kvs n. data = JDict kvs \<and> map_of kvs (ustr ''limit'') = Some (JInt n) \<longrightarrow>
            fetch_limit ev data = Inr (min n 100)
            \<and> (0 \<le> n \<longrightarrow>
                 (\<exists>rows. fetch_messages ev s x data =
                    (s, [Emit ''messages'' (JList (map row_payload rows)) (To x)])
                  \<and> recent_rows (min n 100) s rows \<and> length rows \<le> nat (min n 100)
                  \<and> newest_first rows))
            \<and> (n = 0 \<longrightarrow>
                 fetch_messages ev s x data = (s, [Emit ''messages'' (JList []) (To x)]))
            \<and> (n < 0 \<longrightarrow>
                 fetch_messages ev s x data =
                   (s, [Emit ''error'' (error_payload ''Internal server error'') (To x)])))"
proof (intro conjI impI allI)
  assume d: "data = JNull \<or> (\<exists>kvs. data = JDict kvs \<and> map_of kvs (ustr ''limit'') = None)"
  then show l: "fetch_limit ev data = Inr 50"
    by (auto simp: fetch_limit_default)
  from fetch_messages_rows [OF assms l, of s x]
  show "\<exists>rows. fetch_messages ev s x data =
                  (s, [Emit ''messages'' (JList (map row_payload rows)) (To x)])
                \<and> recent_rows 50 s rows \<and> length rows \<le> 50 \<and> newest_first rows"
    by simp
next
  fix kvs n
  assume d: "data = JDict kvs \<and> map_of kvs (ustr ''limit'') = Some (JInt n)"
  then show l: "fetch_limit ev data = Inr (min n 100)"
    by (simp add: fetch_limit_int)
  {
    assume "0 \<le> n"
    then have "0 \<le> min n 100" by simp
    from fetch_messages_rows [OF assms l this, of s x]
    show "\<exists>rows. fetch_messages ev s x data =
                    (s, [Emit ''messages'' (JList (map row_payload rows)) (To x)])
                  \<and> recent_rows (min n 100) s rows \<and> length rows \<le> nat (min n 100)
                  \<and> newest_first rows" .
  }
  {
    assume "n = 0"
    with fetch_messages_ok [OF assms l, of s x]
    show "fetch_messages ev s x data = (s, [Emit ''messages'' (JList []) (To x)])"
      by (simp add: select_recent_def)
  }
  {
    assume "n < 0"
    with fetch_messages_ok [OF assms l, of s x]
    show "fetch_messages ev s x data =
            (s, [Emit ''error'' (error_payload ''Internal server error'') (To x)])"
      by (simp add: select_recent_def)
  }
qed

lemma sample_store_newest:
  "rev (sort_key (\<lambda>r. ts_key (row_created_at r)) (messages sample_store)) = rev sample_rows"
  by (simp add: sample_store_def sample_rows_def ts_key_def sample_time_def)

theorem fetch_messages_limits_witness:
  "fetch_messages sample_env sample_store ''a'' JNull =
     (sample_store, [Emit ''messages'' (JList (map row_payload (rev sample_rows))) (To ''a'')])
   \<and> fetch_limit sample_env (JDict [(ustr ''limit'', JInt 500)]) = Inr 100
   \<and> fetch_messages sample_env sample_store ''a'' (JDict [(ustr ''limit'', JInt 1)]) =
     (sample_store, [Emit ''messages'' (JList (map row_payload (take 1 (rev sample_rows))))
                       (To ''a'')])
   \<and> fetch_messages sample_env sample_store ''a'' (JDict [(ustr ''limit'', JInt 0)]) =
     (sample_store, [Emit ''messages'' (JList []) (To ''a'')])"
proof -
  have a: "fetch_messages sample_env sample_store ''a'' JNull =
     (sample_store, [Emit ''messages'' (JList (map row_payload (rev sample_rows))) (To ''a'')])"
    using fetch_messages_ok [OF sample_env_no_failure fetch_limit_default(1),
        where s = sample_store and x = "''a''"]
    by (simp add: select_recent_def sample_store_newest sample_rows_def)
  have b: "fetch_messages sample_env sample_store ''a'' (JDict [(ustr ''limit'', JInt 1)]) =
     (sample_store, [Emit ''messages'' (JList (map row_payload (take 1 (rev sample_rows))))
                       (To ''a'')])"
  proof -
    have "fetch_limit sample_env (JDict [(ustr ''limit'', JInt 1)]) = Inr 1"
      by (simp add: fetch_limit_int)
    from fetch_messages_ok [OF sample_env_no_failure this, where s = sample_store
        and x = "''a''"]
    show ?thesis
      by (simp add: select_recent_def sample_store_newest)
  qed
  from fetch_messages_limits [OF sample_env_no_failure,
      of "JDict [(ustr ''limit'', JInt 0)]" sample_store "''a''"]
    fetch_messages_limits [OF sample_env_no_failure,
      of "JDict [(ustr ''limit'', JInt 500)]" sample_store "''a''"]
  show ?thesis
    by (simp add: a b)
qed

section \<open>A limit that is no integer\<close>

text \<open>
  C10. The payload is a dict whose \<^verbatim>\<open>limit\<close> cannot be converted by \<^verbatim>\<open>int()\<close> (the
  conversion raises, as it does for \<^verbatim>\<open>None\<close> and for a string that is no integer
  literal). The handler sends the caller the generic error and nothing else: no
  \<^verbatim>\<open>messages\<close> event, no fall-back to the default of 50.
\<close>

theorem fetch_messages_bad_limit:
  assumes "map_of kvs (ustr ''limit'') = Some v"
    and "py_int (int_of_str ev) v = Inl e"
  shows "fetch_messages ev s x (JDict kvs) =
           (s, [Emit ''error'' (error_payload ''Internal server error'') (To x)])
         \<and> fetch_limit ev (JDict kvs) \<noteq> Inr 50"
  using assms
  by (auto simp: fetch_messages_def fetch_messages_body_def fetch_limit_def)

theorem fetch_messages_bad_limit_witness:
  "py_int (int_of_str sample_env) JNull = Inl TypeError
   \<and> py_int (int_of_str sample_env) (JStr (ustr ''abc'')) = Inl ValueError
   \<and> fetch_messages sample_env empty_store ''a'' (JDict [(ustr ''limit'', JNull)]) =
       (empty_store, [Emit ''error'' (error_payload ''Internal server error'') (To ''a'')])
   \<and> fetch_messages sample_env empty_store ''a'' (JDict [(ustr ''limit'', JStr (ustr ''abc''))]) =
       (empty_store, [Emit ''error'' (error_payload ''Internal server error'') (To ''a'')])"
  using fetch_messages_bad_limit [of "[(ustr ''limit'', JNull)]" JNull sample_env TypeError
      empty_store "''a''"]
    fetch_messages_bad_limit [of "[(ustr ''limit'', JStr (ustr ''abc''))]" "JStr (ustr ''abc'')"
      sample_env ValueError empty_store "''a''"]
  by (simp add: sample_env_def)

section \<open>A message sent and fetched\<close>

lemma sample_send:
  "send_message sample_env empty_store ''a'' (send_payload sample_wallet (ustr ''hello''))
     = (sent_store, [Emit ''new_message'' sent_payload (SkipSid ''a''),
                     Emit ''new_message'' sent_payload (To ''a'')])"
proof -
  have ws: "\<not> whitespace_only (ustr ''hello'')"
    by (simp add: whitespace_only_def ustr_def is_space_def)
  have ln: "length (ustr ''hello'') \<le> 1000"
    by (simp add: ustr_def)
  have t: "db_now sample_env = sample_time"
    by (simp add: sample_env_def)
  from send_message_success [OF py_get_send_payload(1) sample_wallet_valid
      py_get_send_payload(2) ws ln sample_env_no_failure, of empty_store "''a''"]
  show ?thesis
    by (simp add: sample_env_utcnow t insert_message_def insert_user_def empty_store_def
          sent_store_def sent_payload_def)
qed

lemma sample_fetch:
  "fetch_messages sample_env sent_store ''b'' JNull
     = (sent_store, [Emit ''messages'' (JList [fetched_record]) (To ''b'')])"
proof -
  have "isoformat sample_time = ustr ''2024-05-17T09:30:00''"
    using sample_env_db_now by (simp add: sample_env_def)
  with fetch_messages_ok [OF sample_env_no_failure fetch_limit_default(1),
      where s = sent_store and x = "''b''"]
  show ?thesis
    by (simp add: select_recent_def sent_store_def row_payload_def fetched_record_def)
qed

text \<open>
  Against C1 as it is stated: a message is sent and fetched at once. The record fetched
  is not the payload that was broadcast: the store stamped the row at 09:30:00, the
  server read its clock 412 microseconds later.
\<close>

theorem round_trip_counterexample:
  "send_message sample_env empty_store ''a'' (send_payload sample_wallet (ustr ''hello''))
     = (sent_store, [Emit ''new_message'' sent_payload (SkipSid ''a''),
                     Emit ''new_message'' sent_payload (To ''a'')])
   \<and> fetch_messages sample_env sent_store ''b'' JNull
     = (sent_store, [Emit ''messages'' (JList [fetched_record]) (To ''b'')])
   \<and> payload_id fetched_record = payload_id sent_payload
   \<and> fetched_record \<noteq> sent_payload"
proof -
  have ids: "payload_id fetched_record = payload_id sent_payload"
    by (simp add: fetched_record_def sent_payload_def)
  have ne: "fetched_record \<noteq> sent_payload"
    by (simp add: fetched_record_def sent_payload_def message_payload_def ustr_def)
  from ids ne show ?thesis
    by (simp add: sample_send sample_fetch)
qed

lemma appended_same: "messages s' = messages s \<Longrightarrow> appended s s'"
  by (simp add: appended_def)

lemma appended_trans:
  assumes "appended s s1" and "appended s1 s2" and "next_id s \<le> next_id s1"
  shows "appended s s2"
proof -
  from assms(1) obtain e1 where e1: "messages s1 = messages s @ e1"
    "list_all (\<lambda>r. next_id s \<le> row_id r) e1"
    unfolding appended_def by blast
  from assms(2) obtain e2 where e2: "messages s2 = messages s1 @ e2"
    "list_all (\<lambda>r. next_id s1 \<le> row_id r) e2"
    unfolding appended_def by blast
  from e2(2) assms(3) have "list_all (\<lambda>r. next_id s \<le> row_id r) e2"
    by (auto simp: list_all_iff)
  with e1 e2(1) have "messages s2 = messages s @ (e1 @ e2)
      \<and> list_all (\<lambda>r. next_id s \<le> row_id r) (e1 @ e2)"
    by simp
  then show ?thesis
    unfolding appended_def by blast
qed

lemma send_message_appended:
  assumes "send_message ev s x data = (s', out)"
  shows "appended s s'"
  using send_message_outcome [OF assms]
  by (auto simp: appended_def insert_message_def insert_user_def)

lemma login_appended:
  assumes "login ev s x data = (s', out)"
  shows "appended s s'"
  using login_outcome [OF assms]
  by (auto simp: appended_def insert_user_def)

lemma fetch_messages_appended:
  assumes "fetch_messages ev s x data = (s', out)"
  shows "appended s s'"
  using fetch_messages_outcome [OF assms]
  by (auto simp: appended_def)

lemma step_appended:
  assumes "step sv e = (sv', out)"
  shows "appended (db sv) (db sv')"
proof (cases e)
  case (Pair ev evt)
  show ?thesis
  proof (cases evt)
    case (EvLogin x data)
    with Pair assms login_appended [of ev "db sv" x data] show ?thesis
      by (auto split: prod.splits)
  next
    case (EvSendMessage x data)
    with Pair assms send_message_appended [of ev "db sv" x data] show ?thesis
      by (auto split: prod.splits)
  next
    case (EvFetchMessages x data)
    with Pair assms fetch_messages_appended [of ev "db sv" x data] show ?thesis
      by (auto split: prod.splits)
  qed (use Pair assms in \<open>auto simp: appended_def\<close>)
qed

lemma run_appended:
  "run sv es = (sv', out) \<Longrightarrow> ids_below_next (db sv) \<Longrightarrow> appended (db sv) (db sv')"
proof (induction es arbitrary: sv sv' out)
  case Nil
  then show ?case by (simp add: appended_def)
next
  case (Cons e es)
  obtain sv1 out1 where st: "step sv e = (sv1, out1)"
    by (cases "step sv e")
  obtain sv2 out2 where rn: "run sv1 es = (sv2, out2)"
    by (cases "run sv1 es")
  from Cons.prems(1) st rn have eq: "sv' = sv2"
    by simp
  from step_ids [OF st Cons.prems(2)]
  have a: "ids_below_next (db sv1)" and b: "next_id (db sv) \<le> next_id (db sv1)"
    by (simp_all add: ids_between_def)
  from appended_trans [OF step_appended [OF st] Cons.IH [OF rn a] b] show ?case
    unfolding eq .
qed

lemma payload_id_row_payload: "payload_id (row_payload r) = Some (row_id r)"
  by (simp add: row_payload_def)

lemma step_fetch_messages:
  assumes "step sv (ev, EvFetchMessages y q) = (sv', [Emit ''messages'' (JList recs) (To y)])"
  shows "\<exists>rows. recs = map row_payload rows \<and> set rows \<subseteq> set (messages (db sv))
           \<and> newest_first rows"
proof -
  from assms obtain s' where
    f: "fetch_messages ev (db sv) y q = (s', [Emit ''messages'' (JList recs) (To y)])"
    by (auto split: prod.splits)
  from fetch_messages_outcome [OF f] obtain limit rows
    where sel: "select_recent limit (db sv) = Inr rows" and recs: "recs = map row_payload rows"
    by auto
  from select_recent_rows [OF sel] have "recent_rows limit (db sv) rows" ..
  from recent_rows_facts(2,3) [OF this] recs show ?thesis
    by blast
qed

text \<open>
  C1, amended. A message is sent with success in a state the server has reached, other
  events follow, and a later \<^verbatim>\<open>fetch_messages\<close> returns a record with the id of the
  broadcast payload. The record has the id and the content of the payload. Its sender
  is the text the store holds for the wallet of the payload: the wallet itself when
  the wallet is a string. Its \<^verbatim>\<open>created_at\<close> is the store's timestamp of the insert,
  while the payload carries the reading of the server's clock taken after the insert.
\<close>

theorem fetched_message_matches:
  assumes "run initial_server es = (sv, out0)"
    and "step sv (ev, EvSendMessage x data) =
           (sv1, [Emit ''new_message'' p (SkipSid x), Emit ''new_message'' p (To x)])"
    and "run sv1 es1 = (sv2, out1)"
    and "step sv2 (ev2, EvFetchMessages y q) =
           (sv3, [Emit ''messages'' (JList recs) (To y)])"
    and "r \<in> set recs" and "payload_id r = payload_id p"
  shows "\<exists>i wallet w c.
           p = message_payload (JInt i) wallet (JStr c) (JStr (isoformat (utcnow ev)))
           \<and> sql_text_param ev wallet = Inr w
           \<and> (\<forall>w'. wallet = JStr w' \<longrightarrow> w = w')
           \<and> r = message_payload (JInt i) (JStr w) (JStr c) (JStr (isoformat (db_now ev)))"
proof -
  let ?i = "next_id (db sv)"
  from run_ids [OF assms(1) initial_server_ids] have inv: "ids_below_next (db sv)" ..
  from step_send_message [OF assms(2)] obtain s'
    where sm: "send_message ev (db sv) x data =
                 (s', [Emit ''new_message'' p (SkipSid x), Emit ''new_message'' p (To x)])"
      and sv1: "sv1 = sv\<lparr>db := s'\<rparr>"
    by blast
  from send_message_outcome [OF sm]
  obtain wallet w c
    where s': "s' = snd (insert_message w c (db_now ev) (insert_user w (db sv)))"
    and p: "p = message_payload (JInt ?i) wallet (JStr c) (JStr (isoformat (utcnow ev)))"
    and tx: "sql_text_param ev wallet = Inr w"
    by auto
  from tx have st: "\<forall>w'. wallet = JStr w' \<longrightarrow> w = w'"
    by auto
  let ?row = "\<lparr>row_id = ?i, row_sender = w, row_content = c, row_created_at = db_now ev\<rparr>"
  have m1: "messages (db sv1) = messages (db sv) @ [?row]"
    and n1: "next_id (db sv1) = ?i + 1"
    by (simp_all add: sv1 s' insert_message_def insert_user_def)
  from send_message_ids [OF sm inv] have inv1: "ids_below_next (db sv1)"
    by (simp add: sv1)
  from run_appended [OF assms(3) inv1] obtain extra
    where m2: "messages (db sv2) = messages (db sv1) @ extra"
      and ex: "list_all (\<lambda>r. next_id (db sv1) \<le> row_id r) extra"
    unfolding appended_def by blast
  from step_fetch_messages [OF assms(4)] obtain rows
    where recs: "recs = map row_payload rows" and sub: "set rows \<subseteq> set (messages (db sv2))"
    by blast
  from assms(5) recs obtain row where row: "row \<in> set rows" and r: "r = row_payload row"
    by auto
  from assms(6) have id: "row_id row = ?i"
    by (simp add: r p payload_id_row_payload)
  from row sub m1 m2 have "row \<in> set (messages (db sv)) \<or> row = ?row \<or> row \<in> set extra"
    by auto
  moreover from inv id have "row \<notin> set (messages (db sv))"
    by (auto simp: ids_below_next_def list_all_iff)
  moreover from ex n1 id have "row \<notin> set extra"
    by (auto simp: list_all_iff)
  ultimately have "row = ?row"
    by blast
  then have "r = message_payload (JInt ?i) (JStr w) (JStr c) (JStr (isoformat (db_now ev)))"
    by (simp add: r row_payload_def)
  with p tx st show ?thesis
    by blast
qed

theorem fetched_message_matches_witness:
  "run initial_server [] = (initial_server, [])
   \<and> step initial_server
         (sample_env, EvSendMessage ''a'' (send_payload sample_wallet (ustr ''hello'')))
       = (\<lparr>db = sent_store, connected = {}\<rparr>,
          [Emit ''new_message'' sent_payload (SkipSid ''a''),
           Emit ''new_message'' sent_payload (To ''a'')])
   \<and> step \<lparr>db = sent_store, connected = {}\<rparr> (sample_env, EvFetchMessages ''b'' JNull)
       = (\<lparr>db = sent_store, connected = {}\<rparr>,
          [Emit ''messages'' (JList [fetched_record]) (To ''b'')])
   \<and> (\<exists>i wallet w c.
         sent_payload = message_payload (JInt i) wallet (JStr c)
                          (JStr (ustr ''2024-05-17T09:30:00.000412''))
         \<and> sql_text_param sample_env wallet = Inr w
         \<and> (\<forall>w'. wallet = JStr w' \<longrightarrow> w = w')
         \<and> fetched_record = message_payload (JInt i) (JStr w) (JStr c)
                          (JStr (ustr ''2024-05-17T09:30:00'')))"
proof -
  let ?sv1 = "\<lparr>db = sent_store, connected = {}\<rparr>"
  have r0: "run initial_server [] = (initial_server, [])"
    by simp
  have st: "step initial_server
         (sample_env, EvSendMessage ''a'' (send_payload sample_wallet (ustr ''hello'')))
       = (?sv1, [Emit ''new_message'' sent_payload (SkipSid ''a''),
                 Emit ''new_message'' sent_payload (To ''a'')])"
    by (simp add: initial_server_def sample_send)
  have r1: "run ?sv1 [] = (?sv1, [])"
    by simp
  have ft: "step ?sv1 (sample_env, EvFetchMessages ''b'' JNull)
       = (?sv1, [Emit ''messages'' (JList [fetched_record]) (To ''b'')])"
    by (simp add: sample_fetch)
  have mem: "fetched_record \<in> set [fetched_record]"
    by simp
  have ids: "payload_id fetched_record = payload_id sent_payload"
    by (simp add: fetched_record_def sent_payload_def)
  from fetched_message_matches [OF r0 st r1 ft mem ids] r0 st ft show ?thesis
    by (simp add: sample_env_utcnow sample_env_db_now)
qed

subsection \<open>A wallet that is a list\<close>

lemma all_in_valid_chars_replicate:
  "in_valid_chars v = Inr True \<Longrightarrow> all_in_valid_chars (replicate n v) = Inr True"
  by (induction n) simp_all

lemma one_in_valid_chars: "in_valid_chars (JStr (ustr ''1'')) = Inr True"
  by (simp add: ustr_def valid_chars_code_points)

lemma list_wallet_valid: "validate_wallet list_wallet = Inr True"
  using all_in_valid_chars_replicate [OF one_in_valid_chars, of 32]
  by (simp add: validate_wallet_def list_wallet_def)

lemma list_wallet_text:
  "sql_text_param ev list_wallet = Inr (array_text (replicate 32 (ustr ''1'')))"
  by (simp add: list_wallet_def list_all_iff one_in_valid_chars del: in_valid_chars.simps)

lemma array_text_example: "array_text [ustr ''1'', ustr ''1'', ustr ''1''] = ustr ''{1,1,1}''"
  by (simp add: array_text_def ustr_def)

text \<open>
  The validator lets the list through. The send succeeds: the payload that is broadcast
  carries the list as sender, the row, and so every record fetched later, the text of
  the array.
\<close>

lemma list_wallet_send:
  "send_message sample_env empty_store ''a''
     (JDict [(ustr ''wallet'', list_wallet), (ustr ''content'', JStr (ustr ''hello''))])
   = (\<lparr>users = {array_text (replicate 32 (ustr ''1''))},
       messages = [\<lparr>row_id = 1, row_sender = array_text (replicate 32 (ustr ''1'')),
                    row_content = ustr ''hello'', row_created_at = sample_time\<rparr>],
       next_id = 2\<rparr>,
      [Emit ''new_message''
         (message_payload (JInt 1) list_wallet (JStr (ustr ''hello''))
            (JStr (ustr ''2024-05-17T09:30:00.000412''))) (SkipSid ''a''),
       Emit ''new_message''
         (message_payload (JInt 1) list_wallet (JStr (ustr ''hello''))
            (JStr (ustr ''2024-05-17T09:30:00.000412''))) (To ''a'')])"
proof -
  have g: "py_get (JDict [(ustr ''wallet'', list_wallet), (ustr ''content'', JStr (ustr ''hello''))])
             (ustr ''wallet'') = Inr list_wallet"
    "py_get (JDict [(ustr ''wallet'', list_wallet), (ustr ''content'', JStr (ustr ''hello''))])
             (ustr ''content'') = Inr (JStr (ustr ''hello''))"
    by (simp_all add: py_get_def ustr_def)
  have ws: "\<not> whitespace_only (ustr ''hello'')"
    by (simp add: whitespace_only_def ustr_def is_space_def)
  have ln: "length (ustr ''hello'') = 5"
    by (simp add: ustr_def)
  have f: "\<not> fails sample_env c" for c
    by (simp add: sample_env_def)
  have t: "db_now sample_env = sample_time"
    by (simp add: sample_env_def)
  show ?thesis
    by (simp add: send_message_def send_message_body_def g
          wallet_refused_valid [OF list_wallet_valid] content_empty_JStr ws ln
          send_message_db_def list_wallet_text f t Let_def insert_message_def insert_user_def
          empty_store_def sample_env_utcnow)
qed

end
